theory Spec2Isabelle
  imports Main "HOL-Library.Word"
begin

section \<open>The useStableMonitor hook: data model\<close>

text \<open>
  The hook keeps its state in React state cells and reference cells, and every operation
  is a synchronous prefix (the entry guards) followed by an asynchronous \<open>run\<close> that
  suspends at each \<open>await\<close>. The embedding passes the hook's state explicitly, returns the
  external calls a code segment issues as a list of effects, and cuts each \<open>run\<close> at its
  \<open>await\<close>s: one function per continuation, applied to the settled value of the awaited
  call (\<open>Inl\<close> a rejection, \<open>Inr\<close> the resolved value), to the properties of the render that
  is current at that moment, and to the state as it is then. Whatever happened between two
  \<open>await\<close>s (other operations, a switch of account or network) is the state and the
  properties the continuation is applied to.

  Left out: the issuer lookup (\<open>issuerAddress\<close>, \<open>isIssuer\<close>) and \<open>clearTotalSupply\<close>, which
  no operation below reads or writes, and the contract ABI, a constant.
\<close>

subsection \<open>JavaScript values\<close>

text \<open>
  A \<open>number\<close> as the view passes it, \<open>parseInt\<close> of a text field: NaN, or the Number value of
  an integer. \<open>Num n\<close> stands for the double nearest to \<open>n\<close>, infinite where the rounding
  reaches \<open>2^1024\<close>; it has the sign of \<open>n\<close> and is zero only for \<open>n = 0\<close>, so the comparisons
  with zero are those of \<open>n\<close>. The hook's parameter type also admits fractions, which
  \<open>parseInt\<close> never returns; a fraction takes the branch of each comparison that an integer
  of its sign takes.
\<close>

datatype number = NaN | Num int

fun le_zero :: "number \<Rightarrow> bool" where
  "le_zero NaN = False"
| "le_zero (Num n) = (n \<le> 0)"

fun lt_zero :: "number \<Rightarrow> bool" where
  "lt_zero NaN = False"
| "lt_zero (Num n) = (n < 0)"

text \<open>Truthiness of an optional string.\<close>

fun truthy_str :: "string option \<Rightarrow> bool" where
  "truthy_str None = False"
| "truthy_str (Some s) = (s \<noteq> [])"

fun show_nat :: "nat \<Rightarrow> string" where
  "show_nat n =
     (if n < 10 then [''0123456789'' ! n]
      else show_nat (n div 10) @ [''0123456789'' ! (n mod 10)])"

text \<open>The string of a \<open>bigint\<close>: every digit.\<close>

definition show_int :: "int \<Rightarrow> string" where
  "show_int i = (if i < 0 then CHR ''-'' # show_nat (nat (- i)) else show_nat (nat i))"

text \<open>
  The string of a Number with an integer value, as a template literal prints it: the
  value is rounded to the nearest double (53 significant bits, ties to even); the digits
  are the shortest decimal that reads back as that double, the closest one if there are
  several; up to 21 integer digits they are padded with zeros, beyond that the exponent
  form is used. Below \<open>2^53\<close> every integer is its own shortest decimal.
\<close>

fun bit_length :: "nat \<Rightarrow> nat" where
  "bit_length n = (if n = 0 then 0 else Suc (bit_length (n div 2)))"

definition toDouble :: "nat \<Rightarrow> nat" where
  "toDouble x =
     (if bit_length x \<le> 53 then x
      else if x mod 2 ^ (bit_length x - 53) > 2 ^ (bit_length x - 54) \<or>
              (x mod 2 ^ (bit_length x - 53) = 2 ^ (bit_length x - 54) \<and>
               odd (x div 2 ^ (bit_length x - 53)))
           then (x div 2 ^ (bit_length x - 53) + 1) * 2 ^ (bit_length x - 53)
           else (x div 2 ^ (bit_length x - 53)) * 2 ^ (bit_length x - 53))"

text \<open>\<open>shortest m j\<close>: the decimal of fewest significant digits, all zero in its last \<open>j\<close>
  places or fewer, that rounds to the double \<open>m\<close>; the two neighbours of \<open>m\<close> with zeros
  in the last \<open>j\<close> places are tried first, then \<open>j - 1\<close>.\<close>

fun shortest :: "nat \<Rightarrow> nat \<Rightarrow> nat" where
  "shortest m 0 = m"
| "shortest m (Suc j) =
     (if toDouble (m div 10 ^ Suc j * 10 ^ Suc j) = m
      then (if toDouble (m div 10 ^ Suc j * 10 ^ Suc j + 10 ^ Suc j) = m \<and>
               (m div 10 ^ Suc j * 10 ^ Suc j + 10 ^ Suc j - m < m - m div 10 ^ Suc j * 10 ^ Suc j \<or>
                (m div 10 ^ Suc j * 10 ^ Suc j + 10 ^ Suc j - m = m - m div 10 ^ Suc j * 10 ^ Suc j \<and>
                 odd (m div 10 ^ Suc j)))
            then m div 10 ^ Suc j * 10 ^ Suc j + 10 ^ Suc j
            else m div 10 ^ Suc j * 10 ^ Suc j)
      else if toDouble (m div 10 ^ Suc j * 10 ^ Suc j + 10 ^ Suc j) = m
           then m div 10 ^ Suc j * 10 ^ Suc j + 10 ^ Suc j
           else shortest m j)"

definition exponent_form :: "nat \<Rightarrow> string" where
  "exponent_form v =
     (case rev (dropWhile (\<lambda>c. c = CHR ''0'') (rev (show_nat v))) of
        [] \<Rightarrow> []
      | [d] \<Rightarrow> d # ''e+'' @ show_nat (length (show_nat v) - 1)
      | d # ds \<Rightarrow> d # CHR ''.'' # ds @ ''e+'' @ show_nat (length (show_nat v) - 1))"

definition number_toString :: "int \<Rightarrow> string" where
  "number_toString n =
     (if n < 0 then [CHR ''-''] else []) @
     (if nat \<bar>n\<bar> < 2 ^ 53 then show_nat (nat \<bar>n\<bar>)
      else if toDouble (nat \<bar>n\<bar>) \<ge> 2 ^ 1024 then ''Infinity''
      else if length (show_nat (shortest (toDouble (nat \<bar>n\<bar>))
                  (length (show_nat (toDouble (nat \<bar>n\<bar>))) - 1))) \<le> 21
           then show_nat (shortest (toDouble (nat \<bar>n\<bar>))
                  (length (show_nat (toDouble (nat \<bar>n\<bar>))) - 1))
           else exponent_form (shortest (toDouble (nat \<bar>n\<bar>))
                  (length (show_nat (toDouble (nat \<bar>n\<bar>))) - 1)))"

fun show_number :: "number \<Rightarrow> string" where
  "show_number NaN = ''NaN''"
| "show_number (Num n) = number_toString n"

definition toLowerCase :: "string \<Rightarrow> string" where
  "toLowerCase s =
     map (\<lambda>c. case map_of (zip ''ABCDEFGHIJKLMNOPQRSTUVWXYZ'' ''abcdefghijklmnopqrstuvwxyz'') c of
                 None \<Rightarrow> c | Some d \<Rightarrow> d) s"

text \<open>A thrown value: an \<open>Error\<close> with its message.\<close>

datatype error = Error string

text \<open>\<open>"..." + e\<close>: the string conversion of an error.\<close>

fun error_string :: "error \<Rightarrow> string" where
  "error_string (Error m) = (if m = [] then ''Error'' else ''Error: '' @ m)"

text \<open>\<open>e.message || e\<close> inside a template literal.\<close>

fun message_or_error :: "error \<Rightarrow> string" where
  "message_or_error (Error m) = (if m \<noteq> [] then m else error_string (Error m))"

text \<open>A decrypted value: \<open>string | bigint | boolean\<close>; \<open>None\<close> is \<open>undefined\<close>.\<close>

datatype clearv = CBig int | CBool bool | CStr string

fun truthy_clear :: "clearv option \<Rightarrow> bool" where
  "truthy_clear None = False"
| "truthy_clear (Some (CBig n)) = (n \<noteq> 0)"
| "truthy_clear (Some (CBool b)) = b"
| "truthy_clear (Some (CStr s)) = (s \<noteq> [])"

fun show_clear :: "clearv option \<Rightarrow> string" where
  "show_clear None = ''undefined''"
| "show_clear (Some (CBig n)) = show_int n"
| "show_clear (Some (CBool b)) = (if b then ''true'' else ''false'')"
| "show_clear (Some (CStr s)) = s"

definition ZeroHash :: string where
  "ZeroHash = ''0x0000000000000000000000000000000000000000000000000000000000000000''"

definition ZeroAddress :: string where
  "ZeroAddress = ''0x0000000000000000000000000000000000000000''"

subsection \<open>Records of the hook\<close>

record ClearValueType =
  handle :: string
  clear :: "clearv option"

record StableMonitorInfoType =
  address :: "string option"
  info_chainId :: "nat option"
  chainName :: "string option"

text \<open>A signer object: its identity (signers are compared by reference) and its address.\<close>

datatype JsonRpcSigner = JsonRpcSigner (signer_ref: nat) (signer_address: string)

record FhevmDecryptionSignature =
  privateKey :: string
  publicKey :: string
  signature :: string
  contractAddresses :: "string list"
  sig_userAddress :: string
  startTimestamp :: nat
  durationDays :: nat

text \<open>
  The hook's parameters, as one render receives them. The FHE instance matters only as
  present or absent; the read-only provider is an object with an identity.
\<close>

record parameters =
  fhevmInstance :: bool
  chainId :: "nat option"
  ethersSigner :: "JsonRpcSigner option"
  ethersReadonlyProvider :: "nat option"
  userAddress :: "string option"

text \<open>
  Modelled from the spec: \<open>sameChain\<close> and \<open>sameSigner\<close> are reference cells handed to the
  hook by the wallet hook, which is not among the sources. The spec's staleness guard
  checks "that the session context (chain, signer, contract address) is unchanged": the
  cells answer whether the chain, or the signer, a request was started under is the
  current one.
\<close>

definition sameChain :: "parameters \<Rightarrow> nat option \<Rightarrow> bool" where
  "sameChain p c \<longleftrightarrow> c = chainId p"

definition sameSigner :: "parameters \<Rightarrow> JsonRpcSigner option \<Rightarrow> bool" where
  "sameSigner p s \<longleftrightarrow> s = ethersSigner p"

text \<open>The state cells (\<open>useState\<close>) and reference cells (\<open>useRef\<close>) of the hook.\<close>

record hook =
  balanceHandle :: "string option"
  clearBalance :: "ClearValueType option"
  totalSupplyHandle :: "string option"
  riskThresholdHandle :: "string option"
  clearRiskThreshold :: "ClearValueType option"
  riskFlagHandle :: "string option"
  clearRiskFlag :: "ClearValueType option"
  clearBalanceRef :: "ClearValueType option"
  isRefreshing :: bool
  isDecrypting :: bool
  isIssuing :: bool
  isTransferring :: bool
  isCheckingRisk :: bool
  isUpdatingThreshold :: bool
  message :: string
  stableMonitorRef :: "StableMonitorInfoType option"
  isRefreshingRef :: bool
  isDecryptingRef :: bool
  isIssuingRef :: bool
  isTransferringRef :: bool
  isCheckingRiskRef :: bool
  isUpdatingThresholdRef :: bool

text \<open>\<open>stableMonitor.address\<close>, and \<open>stableMonitorRef.current?.address\<close>: the memoised
  deployment record and the reference cell hold the same object.\<close>

definition stableMonitor_address :: "hook \<Rightarrow> string option" where
  "stableMonitor_address st = (case stableMonitorRef st of None \<Rightarrow> None | Some c \<Rightarrow> address c)"

subsection \<open>External calls, closures and continuations\<close>

text \<open>What a transaction receipt carries, with each log already run through the ABI parser.\<close>

datatype parsed_log = Parse_throws | Parse_null | Parsed string string

record log =
  log_address :: "string option"
  parseLog :: parsed_log

record TransactionReceipt =
  status :: "nat option"
  logs :: "log list"

text \<open>The variables a \<open>run\<close> closes over: the session the operation started under, and
  what the \<open>refreshBalance\<close> callback of that render closes over.\<close>

record closure =
  thisChainId :: "nat option"
  thisContractAddress :: string
  thisEthersSigner :: JsonRpcSigner
  closure_provider :: "nat option"
  closure_userAddress :: "string option"

datatype call =
    Call_getHandles string string
  | Call_loadOrSign string JsonRpcSigner
  | Call_userDecrypt string string FhevmDecryptionSignature
  | Call_setTimeout nat
  | Call_encrypt string string number
  | Call_issue string string string string
  | Call_transfer string string string string
  | Call_updateRiskThreshold string string string
  | Call_performRiskCheck string string
  | Call_getRiskThresholdForCaller string
  | Call_getRiskThreshold string
  | Call_wait string

datatype kont =
    RefreshBalance_then "nat option" string
  | DecryptBalance_sig closure string
  | DecryptBalance_res closure string
  | DecryptThreshold_tx closure
  | DecryptThreshold_wait closure
  | DecryptThreshold_handle closure
  | DecryptThreshold_sig closure string
  | DecryptThreshold_res closure string
  | Issue_timer closure string number
  | Issue_enc closure string
  | Issue_tx closure
  | Issue_wait closure
  | Transfer_timer closure string number
  | Transfer_enc closure string
  | Transfer_tx closure
  | Transfer_wait closure
  | Update_timer closure number
  | Update_enc closure
  | Update_tx closure
  | Update_wait closure
  | CheckRisk_tx closure
  | CheckRisk_wait closure
  | CheckRisk_sig closure string
  | CheckRisk_res closure string

text \<open>An effect of a code segment: \<open>refreshBalance\<close> was entered, or a call was issued and
  the continuation waits for it.\<close>

datatype effect = Invoke_refreshBalance | Await call kont

text \<open>How a \<open>run\<close> stands after a segment: suspended at an \<open>await\<close>, returned, or left
  by an exception that nothing catches (\<open>run()\<close> is called without a handler).\<close>

datatype completion = Running | Fulfilled | Thrown error

definition isStale :: "parameters \<Rightarrow> hook \<Rightarrow> closure \<Rightarrow> bool" where
  "isStale p st cl \<longleftrightarrow>
     Some (thisContractAddress cl) \<noteq> stableMonitor_address st \<or>
     \<not> sameChain p (thisChainId cl) \<or>
     \<not> sameSigner p (Some (thisEthersSigner cl))"

section \<open>Operations\<close>

subsection \<open>refreshBalance\<close>

definition refreshBalance :: "nat option \<Rightarrow> string option \<Rightarrow> hook \<Rightarrow> hook \<times> effect list" where
  "refreshBalance provider user st =
     (if isRefreshingRef st \<or> \<not> truthy_str user then (st, [Invoke_refreshBalance])
      else case (stableMonitorRef st, user) of
        (Some c, Some u) \<Rightarrow>
          (case (info_chainId c, address c, provider) of
             (Some n, Some a, Some pr) \<Rightarrow>
               if n = 0 \<or> a = [] then (st\<lparr>balanceHandle := None\<rparr>, [Invoke_refreshBalance])
               else (st\<lparr>isRefreshingRef := True, isRefreshing := True\<rparr>,
                     [Invoke_refreshBalance,
                      Await (Call_getHandles a u) (RefreshBalance_then (Some n) a)])
           | _ \<Rightarrow> (st\<lparr>balanceHandle := None\<rparr>, [Invoke_refreshBalance]))
      | _ \<Rightarrow> (st\<lparr>balanceHandle := None\<rparr>, [Invoke_refreshBalance]))"

text \<open>The \<open>then\<close> and \<open>catch\<close> handlers of the three parallel reads.\<close>

definition refreshBalance_then ::
  "parameters \<Rightarrow> nat option \<Rightarrow> string \<Rightarrow> error + (string \<times> string \<times> string) \<Rightarrow> hook \<Rightarrow>
   hook \<times> effect list \<times> completion" where
  "refreshBalance_then p thisChain thisAddress r st =
     (case r of
        Inr (balance, totalSupply, riskThreshold) \<Rightarrow>
          ((if sameChain p thisChain \<and> Some thisAddress = stableMonitor_address st
            then st\<lparr>balanceHandle := Some balance, totalSupplyHandle := Some totalSupply,
                    riskThresholdHandle := Some riskThreshold\<rparr>
            else st)\<lparr>isRefreshingRef := False, isRefreshing := False\<rparr>, [], Fulfilled)
      | Inl e \<Rightarrow>
          (st\<lparr>message := ''Failed to fetch balance: '' @ error_string e,
              isRefreshingRef := False, isRefreshing := False\<rparr>, [], Fulfilled))"

subsection \<open>issue\<close>

definition issue :: "parameters \<Rightarrow> string \<Rightarrow> number \<Rightarrow> hook \<Rightarrow> hook \<times> effect list" where
  "issue p to amount st =
     (if isRefreshingRef st \<or> isIssuingRef st then (st, [])
      else case (stableMonitor_address st, ethersSigner p) of
        (Some a, Some signer) \<Rightarrow>
          if a = [] \<or> \<not> fhevmInstance p \<or> le_zero amount then (st, [])
          else (st\<lparr>isIssuingRef := True, isIssuing := True,
                   message := ''Issuing '' @ show_number amount @ '' tokens to '' @ to @ ''...''\<rparr>,
                [Await (Call_setTimeout 100)
                   (Issue_timer \<lparr>thisChainId = chainId p, thisContractAddress = a,
                      thisEthersSigner = signer, closure_provider = ethersReadonlyProvider p,
                      closure_userAddress = userAddress p\<rparr> to amount)])
      | _ \<Rightarrow> (st, []))"

text \<open>
  The \<open>run\<close> of \<open>issue\<close>, cut at its four \<open>await\<close>s: the 100 ms timer (outside the \<open>try\<close>; a
  timer does not reject), the encryption of the amount (\<open>createEncryptedInput\<close>, \<open>add32\<close>
  and \<open>encrypt\<close>, taken as one call of the FHE library whose rejection stands for an
  exception of any of the three), the submission, and the wait for the receipt. Every
  segment after the timer runs inside \<open>try ... catch ... finally\<close>.
\<close>

definition issue_timer :: "closure \<Rightarrow> string \<Rightarrow> number \<Rightarrow> hook \<Rightarrow> hook \<times> effect list \<times> completion" where
  "issue_timer cl to amount st =
     (st, [Await (Call_encrypt (thisContractAddress cl) (signer_address (thisEthersSigner cl)) amount)
             (Issue_enc cl to)], Running)"

definition issue_enc ::
  "parameters \<Rightarrow> closure \<Rightarrow> string \<Rightarrow> error + (string \<times> string) \<Rightarrow> hook \<Rightarrow>
   hook \<times> effect list \<times> completion" where
  "issue_enc p cl to r st =
     (case r of
        Inl e \<Rightarrow>
          (st\<lparr>message := ''Issue failed: '' @ message_or_error e,
              isIssuingRef := False, isIssuing := False\<rparr>, [], Fulfilled)
      | Inr (h, inputProof) \<Rightarrow>
          if isStale p st cl
          then (st\<lparr>message := ''Ignore issue'', isIssuingRef := False, isIssuing := False\<rparr>,
                [], Fulfilled)
          else (st\<lparr>message := ''Calling issue...''\<rparr>,
                [Await (Call_issue (thisContractAddress cl) to h inputProof) (Issue_tx cl)],
                Running))"

definition issue_tx :: "closure \<Rightarrow> error + string \<Rightarrow> hook \<Rightarrow> hook \<times> effect list \<times> completion" where
  "issue_tx cl r st =
     (case r of
        Inl e \<Rightarrow>
          (st\<lparr>message := ''Issue failed: '' @ message_or_error e,
              isIssuingRef := False, isIssuing := False\<rparr>, [], Fulfilled)
      | Inr hash \<Rightarrow>
          (st\<lparr>message := ''Waiting for tx:'' @ hash @ ''...''\<rparr>,
           [Await (Call_wait hash) (Issue_wait cl)], Running))"

text \<open>\<open>receipt?.status\<close> inside a template literal.\<close>

fun show_status :: "TransactionReceipt option \<Rightarrow> string" where
  "show_status None = ''undefined''"
| "show_status (Some r) = (case status r of None \<Rightarrow> ''null'' | Some n \<Rightarrow> number_toString (int n))"

definition issue_wait ::
  "parameters \<Rightarrow> closure \<Rightarrow> error + TransactionReceipt option \<Rightarrow> hook \<Rightarrow>
   hook \<times> effect list \<times> completion" where
  "issue_wait p cl r st =
     (case r of
        Inl e \<Rightarrow>
          (st\<lparr>message := ''Issue failed: '' @ message_or_error e,
              isIssuingRef := False, isIssuing := False\<rparr>, [], Fulfilled)
      | Inr receipt \<Rightarrow>
          if isStale p st cl
          then (st\<lparr>message := ''Issue completed status='' @ show_status receipt,
                   message := ''Ignore issue'', isIssuingRef := False, isIssuing := False\<rparr>,
                [], Fulfilled)
          else (case refreshBalance (closure_provider cl) (closure_userAddress cl)
                       (st\<lparr>message := ''Issue completed status='' @ show_status receipt\<rparr>) of
                  (st', effs) \<Rightarrow>
                    (st'\<lparr>isIssuingRef := False, isIssuing := False\<rparr>, effs, Fulfilled)))"

subsection \<open>transfer\<close>

definition transfer :: "parameters \<Rightarrow> string \<Rightarrow> number \<Rightarrow> hook \<Rightarrow> hook \<times> effect list" where
  "transfer p to amount st =
     (if isRefreshingRef st \<or> isTransferringRef st then (st, [])
      else case (stableMonitor_address st, ethersSigner p) of
        (Some a, Some signer) \<Rightarrow>
          if a = [] \<or> \<not> fhevmInstance p \<or> le_zero amount then (st, [])
          else (st\<lparr>isTransferringRef := True, isTransferring := True,
                   message := ''Transferring '' @ show_number amount @ '' tokens to '' @ to @ ''...''\<rparr>,
                [Await (Call_setTimeout 100)
                   (Transfer_timer \<lparr>thisChainId = chainId p, thisContractAddress = a,
                      thisEthersSigner = signer, closure_provider = ethersReadonlyProvider p,
                      closure_userAddress = userAddress p\<rparr> to amount)])
      | _ \<Rightarrow> (st, []))"

definition transfer_timer :: "closure \<Rightarrow> string \<Rightarrow> number \<Rightarrow> hook \<Rightarrow> hook \<times> effect list \<times> completion" where
  "transfer_timer cl to amount st =
     (st, [Await (Call_encrypt (thisContractAddress cl) (signer_address (thisEthersSigner cl)) amount)
             (Transfer_enc cl to)], Running)"

definition transfer_enc ::
  "parameters \<Rightarrow> closure \<Rightarrow> string \<Rightarrow> error + (string \<times> string) \<Rightarrow> hook \<Rightarrow>
   hook \<times> effect list \<times> completion" where
  "transfer_enc p cl to r st =
     (case r of
        Inl e \<Rightarrow>
          (st\<lparr>message := ''Transfer failed: '' @ message_or_error e,
              isTransferringRef := False, isTransferring := False\<rparr>, [], Fulfilled)
      | Inr (h, inputProof) \<Rightarrow>
          if isStale p st cl
          then (st\<lparr>message := ''Ignore transfer'',
                   isTransferringRef := False, isTransferring := False\<rparr>, [], Fulfilled)
          else (st\<lparr>message := ''Calling transfer...''\<rparr>,
                [Await (Call_transfer (thisContractAddress cl) to h inputProof) (Transfer_tx cl)],
                Running))"

definition transfer_tx :: "closure \<Rightarrow> error + string \<Rightarrow> hook \<Rightarrow> hook \<times> effect list \<times> completion" where
  "transfer_tx cl r st =
     (case r of
        Inl e \<Rightarrow>
          (st\<lparr>message := ''Transfer failed: '' @ message_or_error e,
              isTransferringRef := False, isTransferring := False\<rparr>, [], Fulfilled)
      | Inr hash \<Rightarrow>
          (st\<lparr>message := ''Waiting for tx:'' @ hash @ ''...''\<rparr>,
           [Await (Call_wait hash) (Transfer_wait cl)], Running))"

definition transfer_wait ::
  "parameters \<Rightarrow> closure \<Rightarrow> error + TransactionReceipt option \<Rightarrow> hook \<Rightarrow>
   hook \<times> effect list \<times> completion" where
  "transfer_wait p cl r st =
     (case r of
        Inl e \<Rightarrow>
          (st\<lparr>message := ''Transfer failed: '' @ message_or_error e,
              isTransferringRef := False, isTransferring := False\<rparr>, [], Fulfilled)
      | Inr receipt \<Rightarrow>
          if isStale p st cl
          then (st\<lparr>message := ''Transfer completed status='' @ show_status receipt,
                   message := ''Ignore transfer'',
                   isTransferringRef := False, isTransferring := False\<rparr>, [], Fulfilled)
          else (case refreshBalance (closure_provider cl) (closure_userAddress cl)
                       (st\<lparr>message := ''Transfer completed status='' @ show_status receipt\<rparr>) of
                  (st', effs) \<Rightarrow>
                    (st'\<lparr>isTransferringRef := False, isTransferring := False\<rparr>, effs, Fulfilled)))"

subsection \<open>updateRiskThreshold\<close>

definition updateRiskThreshold :: "parameters \<Rightarrow> number \<Rightarrow> hook \<Rightarrow> hook \<times> effect list" where
  "updateRiskThreshold p newThreshold st =
     (if isRefreshingRef st \<or> isUpdatingThresholdRef st then (st, [])
      else case (stableMonitor_address st, ethersSigner p) of
        (Some a, Some signer) \<Rightarrow>
          if a = [] \<or> \<not> fhevmInstance p \<or> lt_zero newThreshold then (st, [])
          else (st\<lparr>isUpdatingThresholdRef := True, isUpdatingThreshold := True,
                   message := ''Updating risk threshold to '' @ show_number newThreshold @ ''...''\<rparr>,
                [Await (Call_setTimeout 100)
                   (Update_timer \<lparr>thisChainId = chainId p, thisContractAddress = a,
                      thisEthersSigner = signer, closure_provider = ethersReadonlyProvider p,
                      closure_userAddress = userAddress p\<rparr> newThreshold)])
      | _ \<Rightarrow> (st, []))"

definition update_timer :: "closure \<Rightarrow> number \<Rightarrow> hook \<Rightarrow> hook \<times> effect list \<times> completion" where
  "update_timer cl newThreshold st =
     (st, [Await (Call_encrypt (thisContractAddress cl) (signer_address (thisEthersSigner cl))
                    newThreshold) (Update_enc cl)], Running)"

definition update_enc ::
  "parameters \<Rightarrow> closure \<Rightarrow> error + (string \<times> string) \<Rightarrow> hook \<Rightarrow>
   hook \<times> effect list \<times> completion" where
  "update_enc p cl r st =
     (case r of
        Inl e \<Rightarrow>
          (st\<lparr>message := ''Update threshold failed: '' @ message_or_error e,
              isUpdatingThresholdRef := False, isUpdatingThreshold := False\<rparr>, [], Fulfilled)
      | Inr (h, inputProof) \<Rightarrow>
          if isStale p st cl
          then (st\<lparr>message := ''Ignore updateRiskThreshold'',
                   isUpdatingThresholdRef := False, isUpdatingThreshold := False\<rparr>, [], Fulfilled)
          else (st\<lparr>message := ''Calling updateRiskThreshold...''\<rparr>,
                [Await (Call_updateRiskThreshold (thisContractAddress cl) h inputProof)
                   (Update_tx cl)], Running))"

definition update_tx :: "closure \<Rightarrow> error + string \<Rightarrow> hook \<Rightarrow> hook \<times> effect list \<times> completion" where
  "update_tx cl r st =
     (case r of
        Inl e \<Rightarrow>
          (st\<lparr>message := ''Update threshold failed: '' @ message_or_error e,
              isUpdatingThresholdRef := False, isUpdatingThreshold := False\<rparr>, [], Fulfilled)
      | Inr hash \<Rightarrow>
          (st\<lparr>message := ''Waiting for tx:'' @ hash @ ''...''\<rparr>,
           [Await (Call_wait hash) (Update_wait cl)], Running))"

definition update_wait ::
  "parameters \<Rightarrow> closure \<Rightarrow> error + TransactionReceipt option \<Rightarrow> hook \<Rightarrow>
   hook \<times> effect list \<times> completion" where
  "update_wait p cl r st =
     (case r of
        Inl e \<Rightarrow>
          (st\<lparr>message := ''Update threshold failed: '' @ message_or_error e,
              isUpdatingThresholdRef := False, isUpdatingThreshold := False\<rparr>, [], Fulfilled)
      | Inr receipt \<Rightarrow>
          if isStale p st cl
          then (st\<lparr>message := ''Update threshold completed status='' @ show_status receipt,
                   message := ''Ignore updateRiskThreshold'',
                   isUpdatingThresholdRef := False, isUpdatingThreshold := False\<rparr>, [], Fulfilled)
          else (case refreshBalance (closure_provider cl) (closure_userAddress cl)
                       (st\<lparr>message := ''Update threshold completed status='' @ show_status receipt\<rparr>) of
                  (st', effs) \<Rightarrow>
                    (st'\<lparr>isUpdatingThresholdRef := False, isUpdatingThreshold := False\<rparr>,
                     effs, Fulfilled)))"

subsection \<open>decryptBalance\<close>

text \<open>
  The fix-up of a decrypted balance: a numeric result above the signed half of 32 bits and
  within 32 bits is read as negative. The decryption returns \<open>string | bigint | boolean\<close>, so
  a numeric result is a \<open>bigint\<close>. \<open>Number(v)\<close> of a \<open>bigint\<close> is exact below \<open>2^53\<close> and
  rounds monotonically above, so the two comparisons decide as on the integer itself, and
  the subtraction is only reached where the conversion is exact.
\<close>

fun toSigned32 :: "clearv option \<Rightarrow> clearv option" where
  "toSigned32 (Some (CBig v)) =
     (if v > 2147483647 \<and> v \<le> 4294967295 then Some (CBig (v - 4294967296)) else Some (CBig v))"
| "toSigned32 v = v"

definition decryptBalance :: "parameters \<Rightarrow> hook \<Rightarrow> hook \<times> effect list" where
  "decryptBalance p st =
     (if isRefreshingRef st \<or> isDecryptingRef st \<or> \<not> truthy_str (balanceHandle st) then (st, [])
      else case (stableMonitor_address st, ethersSigner p, balanceHandle st) of
        (Some a, Some signer, Some h) \<Rightarrow>
          if a = [] \<or> \<not> fhevmInstance p then (st, [])
          else if Some h = map_option handle (clearBalanceRef st) then (st, [])
          else if h = ZeroHash
          then (st\<lparr>clearBalance := Some \<lparr>handle = h, clear = Some (CBig 0)\<rparr>,
                   clearBalanceRef := Some \<lparr>handle = h, clear = Some (CBig 0)\<rparr>\<rparr>, [])
          else (st\<lparr>isDecryptingRef := True, isDecrypting := True,
                   message := ''Start decrypting balance...''\<rparr>,
                [Await (Call_loadOrSign a signer)
                   (DecryptBalance_sig \<lparr>thisChainId = chainId p, thisContractAddress = a,
                      thisEthersSigner = signer, closure_provider = ethersReadonlyProvider p,
                      closure_userAddress = userAddress p\<rparr> h)])
      | _ \<Rightarrow> (st, []))"

text \<open>The \<open>run\<close> of \<open>decryptBalance\<close> is \<open>try ... finally\<close> with no \<open>catch\<close>: a rejection of
  an awaited call runs the \<open>finally\<close> block and leaves \<open>run\<close> as an exception.\<close>

definition decryptBalance_sig ::
  "parameters \<Rightarrow> closure \<Rightarrow> string \<Rightarrow> error + FhevmDecryptionSignature option \<Rightarrow> hook \<Rightarrow>
   hook \<times> effect list \<times> completion" where
  "decryptBalance_sig p cl thisBalanceHandle r st =
     (case r of
        Inl e \<Rightarrow> (st\<lparr>isDecryptingRef := False, isDecrypting := False\<rparr>, [], Thrown e)
      | Inr None \<Rightarrow>
          (st\<lparr>message := ''Unable to build FHEVM decryption signature'',
              isDecryptingRef := False, isDecrypting := False\<rparr>, [], Fulfilled)
      | Inr (Some sig) \<Rightarrow>
          if isStale p st cl
          then (st\<lparr>message := ''Ignore FHEVM decryption'',
                   isDecryptingRef := False, isDecrypting := False\<rparr>, [], Fulfilled)
          else (st\<lparr>message := ''Calling FHEVM userDecrypt...''\<rparr>,
                [Await (Call_userDecrypt thisBalanceHandle (thisContractAddress cl) sig)
                   (DecryptBalance_res cl thisBalanceHandle)], Running))"

definition decryptBalance_res ::
  "parameters \<Rightarrow> closure \<Rightarrow> string \<Rightarrow> error + (string \<times> clearv) list \<Rightarrow> hook \<Rightarrow>
   hook \<times> effect list \<times> completion" where
  "decryptBalance_res p cl thisBalanceHandle r st =
     (case r of
        Inl e \<Rightarrow> (st\<lparr>isDecryptingRef := False, isDecrypting := False\<rparr>, [], Thrown e)
      | Inr res \<Rightarrow>
          if isStale p st cl
          then (st\<lparr>message := ''FHEVM userDecrypt completed!'',
                   message := ''Ignore FHEVM decryption'',
                   isDecryptingRef := False, isDecrypting := False\<rparr>, [], Fulfilled)
          else (st\<lparr>message := ''FHEVM userDecrypt completed!'',
                   clearBalance :=
                     Some \<lparr>handle = thisBalanceHandle,
                           clear = toSigned32 (map_of res thisBalanceHandle)\<rparr>,
                   clearBalanceRef :=
                     Some \<lparr>handle = thisBalanceHandle,
                           clear = toSigned32 (map_of res thisBalanceHandle)\<rparr>,
                   message := ''Balance decrypted: '' @
                     show_clear (toSigned32 (map_of res thisBalanceHandle)),
                   isDecryptingRef := False, isDecrypting := False\<rparr>, [], Fulfilled))"

subsection \<open>decryptRiskThreshold\<close>

definition decryptRiskThreshold :: "parameters \<Rightarrow> hook \<Rightarrow> hook \<times> effect list" where
  "decryptRiskThreshold p st =
     (if isRefreshingRef st \<or> isDecryptingRef st \<or> \<not> truthy_str (riskThresholdHandle st)
      then (st, [])
      else case (stableMonitor_address st, ethersSigner p) of
        (Some a, Some signer) \<Rightarrow>
          if a = [] \<or> \<not> fhevmInstance p then (st, [])
          else (st\<lparr>isDecryptingRef := True, isDecrypting := True,
                   message := ''Start authorizing and decrypting risk threshold...''\<rparr>,
                [Await (Call_getRiskThresholdForCaller a)
                   (DecryptThreshold_tx \<lparr>thisChainId = chainId p, thisContractAddress = a,
                      thisEthersSigner = signer, closure_provider = ethersReadonlyProvider p,
                      closure_userAddress = userAddress p\<rparr>)])
      | _ \<Rightarrow> (st, []))"

definition decryptThreshold_failed :: "error \<Rightarrow> hook \<Rightarrow> hook \<times> effect list \<times> completion" where
  "decryptThreshold_failed e st =
     (st\<lparr>message := ''Decrypt risk threshold failed: '' @ message_or_error e,
         isDecryptingRef := False, isDecrypting := False\<rparr>, [], Fulfilled)"

definition decryptThreshold_tx ::
  "closure \<Rightarrow> error + string \<Rightarrow> hook \<Rightarrow> hook \<times> effect list \<times> completion" where
  "decryptThreshold_tx cl r st =
     (case r of
        Inl e \<Rightarrow> decryptThreshold_failed e st
      | Inr hash \<Rightarrow> (st, [Await (Call_wait hash) (DecryptThreshold_wait cl)], Running))"

definition decryptThreshold_wait ::
  "parameters \<Rightarrow> closure \<Rightarrow> error + TransactionReceipt option \<Rightarrow> hook \<Rightarrow>
   hook \<times> effect list \<times> completion" where
  "decryptThreshold_wait p cl r st =
     (case r of
        Inl e \<Rightarrow> decryptThreshold_failed e st
      | Inr receipt \<Rightarrow>
          if isStale p st cl
          then (st\<lparr>message := ''Ignore threshold decrypt'',
                   isDecryptingRef := False, isDecrypting := False\<rparr>, [], Fulfilled)
          else (st, [Await (Call_getRiskThreshold (thisContractAddress cl))
                       (DecryptThreshold_handle cl)], Running))"

definition decryptThreshold_handle ::
  "closure \<Rightarrow> error + string \<Rightarrow> hook \<Rightarrow> hook \<times> effect list \<times> completion" where
  "decryptThreshold_handle cl r st =
     (case r of
        Inl e \<Rightarrow> decryptThreshold_failed e st
      | Inr h \<Rightarrow>
          (st, [Await (Call_loadOrSign (thisContractAddress cl) (thisEthersSigner cl))
                  (DecryptThreshold_sig cl h)], Running))"

definition decryptThreshold_sig ::
  "parameters \<Rightarrow> closure \<Rightarrow> string \<Rightarrow> error + FhevmDecryptionSignature option \<Rightarrow> hook \<Rightarrow>
   hook \<times> effect list \<times> completion" where
  "decryptThreshold_sig p cl h r st =
     (case r of
        Inl e \<Rightarrow> decryptThreshold_failed e st
      | Inr None \<Rightarrow>
          (st\<lparr>message := ''Unable to build FHEVM decryption signature for threshold'',
              isDecryptingRef := False, isDecrypting := False\<rparr>, [], Fulfilled)
      | Inr (Some sig) \<Rightarrow>
          if isStale p st cl
          then (st\<lparr>message := ''Ignore threshold decrypt'',
                   isDecryptingRef := False, isDecrypting := False\<rparr>, [], Fulfilled)
          else (st, [Await (Call_userDecrypt h (thisContractAddress cl) sig)
                       (DecryptThreshold_res cl h)], Running))"

definition decryptThreshold_res ::
  "closure \<Rightarrow> string \<Rightarrow> error + (string \<times> clearv) list \<Rightarrow> hook \<Rightarrow>
   hook \<times> effect list \<times> completion" where
  "decryptThreshold_res cl h r st =
     (case r of
        Inl e \<Rightarrow> decryptThreshold_failed e st
      | Inr res \<Rightarrow>
          (st\<lparr>clearRiskThreshold := Some \<lparr>handle = h, clear = map_of res h\<rparr>,
              message := ''Risk threshold decrypted'',
              isDecryptingRef := False, isDecrypting := False\<rparr>, [], Fulfilled))"

subsection \<open>checkRisk\<close>

definition checkRisk :: "parameters \<Rightarrow> string \<Rightarrow> hook \<Rightarrow> hook \<times> effect list" where
  "checkRisk p user st =
     (if isCheckingRiskRef st then (st, [])
      else case (stableMonitor_address st, ethersSigner p) of
        (Some a, Some signer) \<Rightarrow>
          if a = [] \<or> \<not> fhevmInstance p then (st, [])
          else (st\<lparr>isCheckingRiskRef := True, isCheckingRisk := True,
                   message := ''Checking risk for '' @ user @ ''...''\<rparr>,
                [Await (Call_performRiskCheck a user)
                   (CheckRisk_tx \<lparr>thisChainId = chainId p, thisContractAddress = a,
                      thisEthersSigner = signer, closure_provider = ethersReadonlyProvider p,
                      closure_userAddress = userAddress p\<rparr>)])
      | _ \<Rightarrow> (st, []))"

definition checkRisk_failed :: "error \<Rightarrow> hook \<Rightarrow> hook \<times> effect list \<times> completion" where
  "checkRisk_failed e st =
     (st\<lparr>message := ''Risk check failed: '' @ message_or_error e,
         isCheckingRiskRef := False, isCheckingRisk := False\<rparr>, [], Fulfilled)"

definition checkRisk_tx ::
  "closure \<Rightarrow> error + string \<Rightarrow> hook \<Rightarrow> hook \<times> effect list \<times> completion" where
  "checkRisk_tx cl r st =
     (case r of
        Inl e \<Rightarrow> checkRisk_failed e st
      | Inr hash \<Rightarrow> (st, [Await (Call_wait hash) (CheckRisk_wait cl)], Running))"

text \<open>The loop over the receipt's logs: skip a log of another contract, skip a log the ABI
  cannot parse, stop at the first \<open>RiskCheck\<close> event and take its second argument.\<close>

fun findRiskHandle :: "string \<Rightarrow> log list \<Rightarrow> string option" where
  "findRiskHandle a [] = None"
| "findRiskHandle a (l # ls) =
     (if map_option toLowerCase (log_address l) \<noteq> Some (toLowerCase a) then findRiskHandle a ls
      else case parseLog l of
             Parsed name h \<Rightarrow> if name = ''RiskCheck'' then Some h else findRiskHandle a ls
           | _ \<Rightarrow> findRiskHandle a ls)"

definition checkRisk_wait ::
  "parameters \<Rightarrow> closure \<Rightarrow> error + TransactionReceipt option \<Rightarrow> hook \<Rightarrow>
   hook \<times> effect list \<times> completion" where
  "checkRisk_wait p cl r st =
     (case r of
        Inl e \<Rightarrow> checkRisk_failed e st
      | Inr receipt \<Rightarrow>
          if isStale p st cl
          then (st\<lparr>message := ''Ignore risk check'',
                   isCheckingRiskRef := False, isCheckingRisk := False\<rparr>, [], Fulfilled)
          else (case receipt of
                  None \<Rightarrow>
                    (st\<lparr>message := ''Transaction receipt is null'',
                        isCheckingRiskRef := False, isCheckingRisk := False\<rparr>, [], Fulfilled)
                | Some rc \<Rightarrow>
                    (case findRiskHandle (thisContractAddress cl) (logs rc) of
                       Some riskHandle \<Rightarrow>
                         if riskHandle = []
                         then (st\<lparr>message := ''Risk check transaction succeeded but event not found'',
                                  isCheckingRiskRef := False, isCheckingRisk := False\<rparr>,
                               [], Fulfilled)
                         else (st\<lparr>riskFlagHandle := Some riskHandle\<rparr>,
                               [Await (Call_loadOrSign (thisContractAddress cl) (thisEthersSigner cl))
                                  (CheckRisk_sig cl riskHandle)], Running)
                     | None \<Rightarrow>
                         (st\<lparr>message := ''Risk check transaction succeeded but event not found'',
                             isCheckingRiskRef := False, isCheckingRisk := False\<rparr>,
                          [], Fulfilled))))"

text \<open>After \<open>loadOrSign\<close>: the decryption is wrapped in \<open>if (sig)\<close> with no \<open>else\<close>.\<close>

definition checkRisk_sig ::
  "closure \<Rightarrow> string \<Rightarrow> error + FhevmDecryptionSignature option \<Rightarrow> hook \<Rightarrow>
   hook \<times> effect list \<times> completion" where
  "checkRisk_sig cl riskHandle r st =
     (case r of
        Inl e \<Rightarrow> checkRisk_failed e st
      | Inr None \<Rightarrow> (st\<lparr>isCheckingRiskRef := False, isCheckingRisk := False\<rparr>, [], Fulfilled)
      | Inr (Some sig) \<Rightarrow>
          (st, [Await (Call_userDecrypt riskHandle (thisContractAddress cl) sig)
                  (CheckRisk_res cl riskHandle)], Running))"

definition checkRisk_res ::
  "closure \<Rightarrow> string \<Rightarrow> error + (string \<times> clearv) list \<Rightarrow> hook \<Rightarrow>
   hook \<times> effect list \<times> completion" where
  "checkRisk_res cl riskHandle r st =
     (case r of
        Inl e \<Rightarrow> checkRisk_failed e st
      | Inr res \<Rightarrow>
          (st\<lparr>clearRiskFlag := Some \<lparr>handle = riskHandle, clear = map_of res riskHandle\<rparr>,
              message := ''Risk check completed: '' @
                (if truthy_clear (map_of res riskHandle) then ''RISK DETECTED'' else ''SAFE''),
              isCheckingRiskRef := False, isCheckingRisk := False\<rparr>, [], Fulfilled))"

subsection \<open>The deployment record and the view\<close>

text \<open>An entry of the generated address table (\<open>StableMonitorAddresses\<close>, not among the
  sources: the table is a parameter).\<close>

record AddressEntry =
  entry_address :: string
  entry_chainId :: nat
  entry_chainName :: string

definition getStableMonitorByChainId ::
  "(nat \<Rightarrow> AddressEntry option) \<Rightarrow> nat option \<Rightarrow> StableMonitorInfoType" where
  "getStableMonitorByChainId tab c =
     (case c of
        None \<Rightarrow> \<lparr>address = None, info_chainId = None, chainName = None\<rparr>
      | Some n \<Rightarrow>
          if n = 0 then \<lparr>address = None, info_chainId = None, chainName = None\<rparr>
          else case tab n of
            None \<Rightarrow> \<lparr>address = None, info_chainId = Some n, chainName = None\<rparr>
          | Some entry \<Rightarrow>
              if entry_address entry = ZeroAddress
              then \<lparr>address = None, info_chainId = Some n, chainName = None\<rparr>
              else \<lparr>address = Some (entry_address entry),
                    info_chainId = Some (entry_chainId entry),
                    chainName = Some (entry_chainName entry)\<rparr>)"

text \<open>The body of the \<open>useMemo\<close> that recomputes the deployment record when the chain
  changes.\<close>

definition useMemo_stableMonitor ::
  "(nat \<Rightarrow> AddressEntry option) \<Rightarrow> nat option \<Rightarrow> hook \<Rightarrow> hook" where
  "useMemo_stableMonitor tab c st =
     st\<lparr>stableMonitorRef := Some (getStableMonitorByChainId tab c),
        message :=
          (case info_chainId (getStableMonitorByChainId tab c) of
             Some n \<Rightarrow>
               if truthy_str (address (getStableMonitorByChainId tab c)) then []
               else ''StableMonitor deployment not found for chainId='' @ number_toString (int n) @ ''.''
           | None \<Rightarrow> [])\<rparr>"

definition isBalanceDecrypted :: "hook \<Rightarrow> bool" where
  "isBalanceDecrypted st \<longleftrightarrow>
     truthy_str (balanceHandle st) \<and> balanceHandle st = map_option handle (clearBalance st)"

text \<open>The "Decrypted Balance" row of \<open>renderWalletView\<close>: the view reads \<open>clear\<close>, which the
  hook returns as \<open>clearBalance?.clear\<close>.\<close>

definition click_to_view :: string where
  "click_to_view = ''Click '' @ [CHR 0x22] @ ''Decrypt'' @ [CHR 0x22] @ '' to view''"

definition decryptedBalanceRow :: "hook \<Rightarrow> string" where
  "decryptedBalanceRow st =
     (case clearBalance st of
        None \<Rightarrow> click_to_view
      | Some cv \<Rightarrow>
          (case clear cv of
             None \<Rightarrow> click_to_view
           | Some v \<Rightarrow> show_clear (Some v) @ '' tokens''))"

section \<open>The hook as a transition system\<close>

text \<open>
  One UI thread: an event is an invocation of an operation, a new render with changed
  parameters (a switch of account or network), or the settling of an awaited call, upon
  which the continuation waiting for it runs to its next \<open>await\<close>.
\<close>

datatype settled =
    Handles "error + (string \<times> string \<times> string)"
  | Signature "error + FhevmDecryptionSignature option"
  | Decrypted "error + (string \<times> clearv) list"
  | Timer_fired
  | Encrypted "error + (string \<times> string)"
  | Sent "error + string"
  | Receipt "error + TransactionReceipt option"
  | Handle_read "error + string"

definition resume ::
  "parameters \<Rightarrow> kont \<Rightarrow> settled \<Rightarrow> hook \<Rightarrow> (hook \<times> effect list \<times> completion) option" where
  "resume p k v st =
     (case (k, v) of
        (RefreshBalance_then c a, Handles r) \<Rightarrow> Some (refreshBalance_then p c a r st)
      | (DecryptBalance_sig cl h, Signature r) \<Rightarrow> Some (decryptBalance_sig p cl h r st)
      | (DecryptBalance_res cl h, Decrypted r) \<Rightarrow> Some (decryptBalance_res p cl h r st)
      | (DecryptThreshold_tx cl, Sent r) \<Rightarrow> Some (decryptThreshold_tx cl r st)
      | (DecryptThreshold_wait cl, Receipt r) \<Rightarrow> Some (decryptThreshold_wait p cl r st)
      | (DecryptThreshold_handle cl, Handle_read r) \<Rightarrow> Some (decryptThreshold_handle cl r st)
      | (DecryptThreshold_sig cl h, Signature r) \<Rightarrow> Some (decryptThreshold_sig p cl h r st)
      | (DecryptThreshold_res cl h, Decrypted r) \<Rightarrow> Some (decryptThreshold_res cl h r st)
      | (Issue_timer cl to amount, Timer_fired) \<Rightarrow> Some (issue_timer cl to amount st)
      | (Issue_enc cl to, Encrypted r) \<Rightarrow> Some (issue_enc p cl to r st)
      | (Issue_tx cl, Sent r) \<Rightarrow> Some (issue_tx cl r st)
      | (Issue_wait cl, Receipt r) \<Rightarrow> Some (issue_wait p cl r st)
      | (Transfer_timer cl to amount, Timer_fired) \<Rightarrow> Some (transfer_timer cl to amount st)
      | (Transfer_enc cl to, Encrypted r) \<Rightarrow> Some (transfer_enc p cl to r st)
      | (Transfer_tx cl, Sent r) \<Rightarrow> Some (transfer_tx cl r st)
      | (Transfer_wait cl, Receipt r) \<Rightarrow> Some (transfer_wait p cl r st)
      | (Update_timer cl n, Timer_fired) \<Rightarrow> Some (update_timer cl n st)
      | (Update_enc cl, Encrypted r) \<Rightarrow> Some (update_enc p cl r st)
      | (Update_tx cl, Sent r) \<Rightarrow> Some (update_tx cl r st)
      | (Update_wait cl, Receipt r) \<Rightarrow> Some (update_wait p cl r st)
      | (CheckRisk_tx cl, Sent r) \<Rightarrow> Some (checkRisk_tx cl r st)
      | (CheckRisk_wait cl, Receipt r) \<Rightarrow> Some (checkRisk_wait p cl r st)
      | (CheckRisk_sig cl h, Signature r) \<Rightarrow> Some (checkRisk_sig cl h r st)
      | (CheckRisk_res cl h, Decrypted r) \<Rightarrow> Some (checkRisk_res cl h r st)
      | _ \<Rightarrow> None)"

datatype action =
    Refresh_balance
  | Decrypt_balance
  | Decrypt_risk_threshold
  | Do_issue string number
  | Do_transfer string number
  | Check_risk string
  | Update_risk_threshold number

fun invoke :: "parameters \<Rightarrow> action \<Rightarrow> hook \<Rightarrow> hook \<times> effect list" where
  "invoke p Refresh_balance st = refreshBalance (ethersReadonlyProvider p) (userAddress p) st"
| "invoke p Decrypt_balance st = decryptBalance p st"
| "invoke p Decrypt_risk_threshold st = decryptRiskThreshold p st"
| "invoke p (Do_issue to amount) st = issue p to amount st"
| "invoke p (Do_transfer to amount) st = transfer p to amount st"
| "invoke p (Check_risk user) st = checkRisk p user st"
| "invoke p (Update_risk_threshold n) st = updateRiskThreshold p n st"

datatype event = Invoke action | Render parameters | Settle nat settled

record sys =
  hook_state :: hook
  props :: parameters
  pending :: "(call \<times> kont) list"
  trace :: "effect list"
  unhandled :: "error list"

fun awaits :: "effect list \<Rightarrow> (call \<times> kont) list" where
  "awaits [] = []"
| "awaits (Invoke_refreshBalance # es) = awaits es"
| "awaits (Await c k # es) = (c, k) # awaits es"

fun thrown :: "completion \<Rightarrow> error list" where
  "thrown (Thrown e) = [e]"
| "thrown _ = []"

text \<open>A render with new parameters: the deployment record is recomputed when the chain
  changed, and the effect that calls \<open>refreshBalance\<close> runs when the callback changed, that
  is when the read-only provider or the user address did.\<close>

definition render :: "(nat \<Rightarrow> AddressEntry option) \<Rightarrow> parameters \<Rightarrow> sys \<Rightarrow> sys" where
  "render tab p' s =
     (case (if ethersReadonlyProvider p' \<noteq> ethersReadonlyProvider (props s) \<or>
               userAddress p' \<noteq> userAddress (props s)
            then refreshBalance (ethersReadonlyProvider p') (userAddress p')
                   (if chainId p' \<noteq> chainId (props s)
                    then useMemo_stableMonitor tab (chainId p') (hook_state s) else hook_state s)
            else (if chainId p' \<noteq> chainId (props s)
                  then useMemo_stableMonitor tab (chainId p') (hook_state s) else hook_state s, [])) of
        (st', effs) \<Rightarrow>
          s\<lparr>hook_state := st', props := p', pending := pending s @ awaits effs,
            trace := trace s @ effs\<rparr>)"

text \<open>The first render: every cell at its initial value, then the memo and the effect.\<close>

definition initial :: hook where
  "initial =
     \<lparr>balanceHandle = None, clearBalance = None, totalSupplyHandle = None,
      riskThresholdHandle = None, clearRiskThreshold = None, riskFlagHandle = None,
      clearRiskFlag = None, clearBalanceRef = None, isRefreshing = False, isDecrypting = False,
      isIssuing = False, isTransferring = False, isCheckingRisk = False,
      isUpdatingThreshold = False, message = [], stableMonitorRef = None,
      isRefreshingRef = False, isDecryptingRef = False, isIssuingRef = False,
      isTransferringRef = False, isCheckingRiskRef = False, isUpdatingThresholdRef = False\<rparr>"

definition mount :: "(nat \<Rightarrow> AddressEntry option) \<Rightarrow> parameters \<Rightarrow> sys" where
  "mount tab p =
     (case refreshBalance (ethersReadonlyProvider p) (userAddress p)
             (useMemo_stableMonitor tab (chainId p) initial) of
        (st', effs) \<Rightarrow>
          \<lparr>hook_state = st', props = p, pending = awaits effs, trace = effs, unhandled = []\<rparr>)"

fun step :: "(nat \<Rightarrow> AddressEntry option) \<Rightarrow> sys \<Rightarrow> event \<Rightarrow> sys option" where
  "step tab s (Invoke a) =
     (case invoke (props s) a (hook_state s) of
        (st', effs) \<Rightarrow>
          Some (s\<lparr>hook_state := st', pending := pending s @ awaits effs,
                  trace := trace s @ effs\<rparr>))"
| "step tab s (Render p') = Some (render tab p' s)"
| "step tab s (Settle i v) =
     (if i < length (pending s)
      then case resume (props s) (snd (pending s ! i)) v (hook_state s) of
             None \<Rightarrow> None
           | Some (st', effs, done) \<Rightarrow>
               Some (s\<lparr>hook_state := st',
                       pending := take i (pending s) @ drop (Suc i) (pending s) @ awaits effs,
                       trace := trace s @ effs,
                       unhandled := unhandled s @ thrown done\<rparr>)
      else None)"

fun exec :: "(nat \<Rightarrow> AddressEntry option) \<Rightarrow> sys \<Rightarrow> event list \<Rightarrow> sys option" where
  "exec tab s [] = Some s"
| "exec tab s (e # es) = (case step tab s e of None \<Rightarrow> None | Some s' \<Rightarrow> exec tab s' es)"

section \<open>Busy flags, continuations and the in-flight invariant\<close>

text \<open>
  Which operation a continuation belongs to, the busy flag that operation reads at entry
  (its reference cell) and the flag it shows (its state cell), and the number of
  \<open>await\<close>s a continuation still has before its \<open>run\<close> returns at the latest.
  \<open>decryptBalance\<close> and \<open>decryptRiskThreshold\<close> share one flag.
\<close>

datatype opkind = Refresh | Decrypt | Issue | Transfer | CheckRisk | UpdateThreshold

fun kind :: "kont \<Rightarrow> opkind" where
  "kind (RefreshBalance_then c a) = Refresh"
| "kind (DecryptBalance_sig cl h) = Decrypt"
| "kind (DecryptBalance_res cl h) = Decrypt"
| "kind (DecryptThreshold_tx cl) = Decrypt"
| "kind (DecryptThreshold_wait cl) = Decrypt"
| "kind (DecryptThreshold_handle cl) = Decrypt"
| "kind (DecryptThreshold_sig cl h) = Decrypt"
| "kind (DecryptThreshold_res cl h) = Decrypt"
| "kind (Issue_timer cl to n) = Issue"
| "kind (Issue_enc cl to) = Issue"
| "kind (Issue_tx cl) = Issue"
| "kind (Issue_wait cl) = Issue"
| "kind (Transfer_timer cl to n) = Transfer"
| "kind (Transfer_enc cl to) = Transfer"
| "kind (Transfer_tx cl) = Transfer"
| "kind (Transfer_wait cl) = Transfer"
| "kind (Update_timer cl n) = UpdateThreshold"
| "kind (Update_enc cl) = UpdateThreshold"
| "kind (Update_tx cl) = UpdateThreshold"
| "kind (Update_wait cl) = UpdateThreshold"
| "kind (CheckRisk_tx cl) = CheckRisk"
| "kind (CheckRisk_wait cl) = CheckRisk"
| "kind (CheckRisk_sig cl h) = CheckRisk"
| "kind (CheckRisk_res cl h) = CheckRisk"

fun busy :: "opkind \<Rightarrow> hook \<Rightarrow> bool" where
  "busy Refresh st = isRefreshingRef st"
| "busy Decrypt st = isDecryptingRef st"
| "busy Issue st = isIssuingRef st"
| "busy Transfer st = isTransferringRef st"
| "busy CheckRisk st = isCheckingRiskRef st"
| "busy UpdateThreshold st = isUpdatingThresholdRef st"

fun busy_state :: "opkind \<Rightarrow> hook \<Rightarrow> bool" where
  "busy_state Refresh st = isRefreshing st"
| "busy_state Decrypt st = isDecrypting st"
| "busy_state Issue st = isIssuing st"
| "busy_state Transfer st = isTransferring st"
| "busy_state CheckRisk st = isCheckingRisk st"
| "busy_state UpdateThreshold st = isUpdatingThreshold st"

fun steps_left :: "kont \<Rightarrow> nat" where
  "steps_left (RefreshBalance_then c a) = 1"
| "steps_left (DecryptBalance_sig cl h) = 2"
| "steps_left (DecryptBalance_res cl h) = 1"
| "steps_left (DecryptThreshold_tx cl) = 5"
| "steps_left (DecryptThreshold_wait cl) = 4"
| "steps_left (DecryptThreshold_handle cl) = 3"
| "steps_left (DecryptThreshold_sig cl h) = 2"
| "steps_left (DecryptThreshold_res cl h) = 1"
| "steps_left (Issue_timer cl to n) = 4"
| "steps_left (Issue_enc cl to) = 3"
| "steps_left (Issue_tx cl) = 2"
| "steps_left (Issue_wait cl) = 1"
| "steps_left (Transfer_timer cl to n) = 4"
| "steps_left (Transfer_enc cl to) = 3"
| "steps_left (Transfer_tx cl) = 2"
| "steps_left (Transfer_wait cl) = 1"
| "steps_left (Update_timer cl n) = 4"
| "steps_left (Update_enc cl) = 3"
| "steps_left (Update_tx cl) = 2"
| "steps_left (Update_wait cl) = 1"
| "steps_left (CheckRisk_tx cl) = 4"
| "steps_left (CheckRisk_wait cl) = 3"
| "steps_left (CheckRisk_sig cl h) = 2"
| "steps_left (CheckRisk_res cl h) = 1"

definition flags_agree :: "hook \<Rightarrow> bool" where
  "flags_agree st \<longleftrightarrow>
     isRefreshing st = isRefreshingRef st \<and> isDecrypting st = isDecryptingRef st \<and>
     isIssuing st = isIssuingRef st \<and> isTransferring st = isTransferringRef st \<and>
     isCheckingRisk st = isCheckingRiskRef st \<and> isUpdatingThreshold st = isUpdatingThresholdRef st"

text \<open>The calls a segment issues are acceptable for a task of kind \<open>K\<close> (or for an
  invocation, \<open>None\<close>): at most one, its operation's flag is set afterwards, and it either
  continues the task itself or belongs to an operation that was idle.\<close>

definition awaits_ok :: "opkind option \<Rightarrow> hook \<Rightarrow> hook \<Rightarrow> effect list \<Rightarrow> bool" where
  "awaits_ok K st st' effs \<longleftrightarrow>
     (case awaits effs of
        [] \<Rightarrow> True
      | [ck] \<Rightarrow> busy (kind (snd ck)) st' \<and> (Some (kind (snd ck)) = K \<or> \<not> busy (kind (snd ck)) st)
      | _ \<Rightarrow> False)"

text \<open>The invariant of the transition system: state flags mirror the reference cells,
  every pending continuation has its operation's flag set, and no two pending continuations
  belong to the same flag.\<close>

definition inv :: "sys \<Rightarrow> bool" where
  "inv s \<longleftrightarrow>
     flags_agree (hook_state s) \<and>
     (\<forall>ck \<in> set (pending s). busy (kind (snd ck)) (hook_state s)) \<and>
     distinct (map (kind \<circ> snd) (pending s))"

text \<open>How often a segment entered \<open>refreshBalance\<close>.\<close>

fun refresh_count :: "effect list \<Rightarrow> nat" where
  "refresh_count [] = 0"
| "refresh_count (Invoke_refreshBalance # es) = Suc (refresh_count es)"
| "refresh_count (Await c k # es) = refresh_count es"

section \<open>Concrete sessions\<close>

text \<open>A deployment on one chain, two accounts, and the states the theorems below are
  instantiated at.\<close>

definition contract :: string where
  "contract = ''0x5FbDB2315678afecb367f032d93F642f64180aa3''"

definition table :: "nat \<Rightarrow> AddressEntry option" where
  "table n =
     (if n = 11155111
      then Some \<lparr>entry_address = contract, entry_chainId = 11155111,
                 entry_chainName = ''sepolia''\<rparr>
      else None)"

definition alice :: JsonRpcSigner where
  "alice = JsonRpcSigner 1 ''0x70997970C51812dc3A010C7d01b50e0d17dc79C8''"

definition bob :: JsonRpcSigner where
  "bob = JsonRpcSigner 2 ''0x3C44CdDdB6a900fa2b585dd299e03d12FA4293BC''"

definition alice_props :: parameters where
  "alice_props =
     \<lparr>fhevmInstance = True, chainId = Some 11155111, ethersSigner = Some alice,
      ethersReadonlyProvider = Some 1, userAddress = Some (signer_address alice)\<rparr>"

definition bob_props :: parameters where
  "bob_props =
     \<lparr>fhevmInstance = True, chainId = Some 11155111, ethersSigner = Some bob,
      ethersReadonlyProvider = Some 1, userAddress = Some (signer_address bob)\<rparr>"

definition handle1 :: string where
  "handle1 = ''0x1111111111111111111111111111111111111111111111111111111111111111''"

definition handle2 :: string where
  "handle2 = ''0x2222222222222222222222222222222222222222222222222222222222222222''"

definition handle3 :: string where
  "handle3 = ''0x3333333333333333333333333333333333333333333333333333333333333333''"

definition handle4 :: string where
  "handle4 = ''0x4444444444444444444444444444444444444444444444444444444444444444''"

text \<open>The hook after the first render on the deployed chain and the first refresh.\<close>

definition ready :: hook where
  "ready =
     initial\<lparr>stableMonitorRef :=
               Some \<lparr>address = Some contract, info_chainId = Some 11155111,
                     chainName = Some ''sepolia''\<rparr>,
             balanceHandle := Some handle1, totalSupplyHandle := Some handle2,
             riskThresholdHandle := Some handle3\<rparr>"

definition alice_closure :: closure where
  "alice_closure =
     \<lparr>thisChainId = Some 11155111, thisContractAddress = contract, thisEthersSigner = alice,
      closure_provider = Some 1, closure_userAddress = Some (signer_address alice)\<rparr>"

text \<open>Alice on a chain without a deployment.\<close>

definition alice_elsewhere :: parameters where
  "alice_elsewhere =
     \<lparr>fhevmInstance = True, chainId = Some 31337, ethersSigner = Some alice,
      ethersReadonlyProvider = Some 2, userAddress = Some (signer_address alice)\<rparr>"

definition signature1 :: FhevmDecryptionSignature where
  "signature1 =
     \<lparr>privateKey = ''a1'', publicKey = ''b2'', signature = ''c3'', contractAddresses = [contract],
      sig_userAddress = signer_address alice, startTimestamp = 1700000000, durationDays = 365\<rparr>"

definition tx1 :: string where
  "tx1 = ''0xaaaaaaaaaaaaaaaaaaaaaaaaaaaaaaaaaaaaaaaaaaaaaaaaaaaaaaaaaaaaaaaa''"

text \<open>A confirmed receipt whose only log is the contract's \<open>RiskCheck\<close> event carrying
  \<open>handle4\<close>, and one without logs.\<close>

definition riskCheck_receipt :: TransactionReceipt where
  "riskCheck_receipt =
     \<lparr>status = Some 1,
      logs = [\<lparr>log_address = Some ''0x5fbdb2315678afecb367f032d93f642f64180aa3'',
               parseLog = Parsed ''RiskCheck'' handle4\<rparr>]\<rparr>"

definition plain_receipt :: TransactionReceipt where
  "plain_receipt = \<lparr>status = Some 1, logs = []\<rparr>"

text \<open>States with one operation in flight.\<close>

definition refreshing :: hook where
  "refreshing = ready\<lparr>isRefreshingRef := True, isRefreshing := True\<rparr>"

definition decrypting :: hook where
  "decrypting =
     ready\<lparr>isDecryptingRef := True, isDecrypting := True,
           message := ''Calling FHEVM userDecrypt...''\<rparr>"

definition issuing :: hook where
  "issuing = ready\<lparr>isIssuingRef := True, isIssuing := True, message := ''Waiting for tx:'' @ tx1 @ ''...''\<rparr>"



text \<open>A balance that was never written reads as the zero handle; a second refresh is
  started and, while it is in flight, the balance is asked to be decrypted.\<close>

definition zero_balance_trace :: "event list" where
  "zero_balance_trace =
     [Settle 0 (Handles (Inr (ZeroHash, handle2, handle3))), Invoke Refresh_balance,
      Invoke Decrypt_balance]"

text \<open>After the first refresh Alice issues 5 tokens to Bob; the run waits at its timer.\<close>

definition issue_started :: "event list" where
  "issue_started =
     [Settle 0 (Handles (Inr (handle1, handle2, handle3))),
      Invoke (Do_issue (signer_address bob) (Num 5))]"

definition issue_started_sys :: sys where
  "issue_started_sys =
     \<lparr>hook_state = ready\<lparr>isIssuingRef := True, isIssuing := True,
          message := ''Issuing 5 tokens to 0x3C44CdDdB6a900fa2b585dd299e03d12FA4293BC...''\<rparr>,
      props = alice_props,
      pending = [(Call_setTimeout 100, Issue_timer alice_closure (signer_address bob) (Num 5))],
      trace = [Invoke_refreshBalance,
               Await (Call_getHandles contract (signer_address alice))
                 (RefreshBalance_then (Some 11155111) contract),
               Await (Call_setTimeout 100) (Issue_timer alice_closure (signer_address bob) (Num 5))],
      unhandled = []\<rparr>"


text \<open>Sequences of events from the first render of Alice's session.\<close>

definition decrypt_rejected :: "event list" where
  "decrypt_rejected =
     [Settle 0 (Handles (Inr (handle1, handle2, handle3))),
      Invoke Decrypt_balance,
      Settle 0 (Signature (Inr (Some signature1))),
      Settle 0 (Decrypted (Inl (Error ''relayer unavailable'')))]"

definition risk_check_unsigned :: "event list" where
  "risk_check_unsigned =
     [Settle 0 (Handles (Inr (handle1, handle2, handle3))),
      Invoke (Check_risk (signer_address bob)),
      Settle 0 (Sent (Inr tx1)),
      Settle 0 (Receipt (Inr (Some riskCheck_receipt))),
      Settle 0 (Signature (Inr None))]"

definition decrypt_then_transfer :: "event list" where
  "decrypt_then_transfer =
     [Settle 0 (Handles (Inr (handle1, handle2, handle3))),
      Invoke Decrypt_balance,
      Settle 0 (Signature (Inr (Some signature1))),
      Settle 0 (Decrypted (Inr [(handle1, CBig 100)])),
      Invoke (Do_transfer (signer_address bob) (Num 40)),
      Settle 0 Timer_fired,
      Settle 0 (Encrypted (Inr (handle4, ''0x00''))),
      Settle 0 (Sent (Inr tx1)),
      Settle 0 (Receipt (Inr (Some plain_receipt))),
      Settle 0 (Handles (Inr (handle4, handle2, handle3)))]"

definition switch_during_refresh :: "event list" where
  "switch_during_refresh =
     [Render bob_props, Settle 0 (Handles (Inr (handle1, handle2, handle3)))]"

text \<open>The hook after Alice moved to a chain without a deployment, a refresh still in
  flight.\<close>

definition elsewhere :: hook where
  "elsewhere =
     refreshing\<lparr>stableMonitorRef :=
                  Some \<lparr>address = None, info_chainId = Some 31337, chainName = None\<rparr>,
                message := ''StableMonitor deployment not found for chainId=31337.''\<rparr>"

text \<open>Alice decrypts the risk threshold; the wallet switches to Bob while the decryption
  round trip is under way.\<close>

definition switch_during_threshold_decrypt :: "event list" where
  "switch_during_threshold_decrypt =
     [Settle 0 (Handles (Inr (handle1, handle2, handle3))),
      Invoke Decrypt_risk_threshold,
      Settle 0 (Sent (Inr tx1)),
      Settle 0 (Receipt (Inr (Some plain_receipt))),
      Settle 0 (Handle_read (Inr handle3)),
      Settle 0 (Signature (Inr (Some signature1))),
      Render bob_props,
      Settle 0 (Decrypted (Inr [(handle3, CBig 1000)]))]"

lemmas session_defs =
  contract_def table_def alice_def bob_def alice_props_def bob_props_def handle1_def handle2_def
  handle3_def handle4_def ready_def alice_closure_def initial_def

section \<open>Unfolding and case analysis\<close>

lemmas run_defs =
  refreshBalance_def refreshBalance_then_def issue_def issue_timer_def issue_enc_def issue_tx_def
  issue_wait_def transfer_def transfer_timer_def transfer_enc_def transfer_tx_def
  transfer_wait_def updateRiskThreshold_def update_timer_def update_enc_def update_tx_def
  update_wait_def decryptBalance_def decryptBalance_sig_def decryptBalance_res_def
  decryptRiskThreshold_def decryptThreshold_failed_def decryptThreshold_tx_def
  decryptThreshold_wait_def decryptThreshold_handle_def decryptThreshold_sig_def
  decryptThreshold_res_def checkRisk_def checkRisk_failed_def checkRisk_tx_def
  checkRisk_wait_def checkRisk_sig_def checkRisk_res_def

lemmas sys_defs =
  resume_def render_def mount_def useMemo_stableMonitor_def getStableMonitorByChainId_def
  isStale_def sameChain_def sameSigner_def stableMonitor_address_def ZeroAddress_def ZeroHash_def
  number_toString_def

text \<open>A continuation resumes on the settled value of the call it waits for, and on no
  other.\<close>

lemma resume_iff:
  "resume p (RefreshBalance_then c a) v st = Some r \<longleftrightarrow> (\<exists>x. v = Handles x \<and> r = refreshBalance_then p c a x st)"
  "resume p (DecryptBalance_sig cl h) v st = Some r \<longleftrightarrow> (\<exists>x. v = Signature x \<and> r = decryptBalance_sig p cl h x st)"
  "resume p (DecryptBalance_res cl h) v st = Some r \<longleftrightarrow> (\<exists>x. v = Decrypted x \<and> r = decryptBalance_res p cl h x st)"
  "resume p (DecryptThreshold_tx cl) v st = Some r \<longleftrightarrow> (\<exists>x. v = Sent x \<and> r = decryptThreshold_tx cl x st)"
  "resume p (DecryptThreshold_wait cl) v st = Some r \<longleftrightarrow> (\<exists>x. v = Receipt x \<and> r = decryptThreshold_wait p cl x st)"
  "resume p (DecryptThreshold_handle cl) v st = Some r \<longleftrightarrow> (\<exists>x. v = Handle_read x \<and> r = decryptThreshold_handle cl x st)"
  "resume p (DecryptThreshold_sig cl h) v st = Some r \<longleftrightarrow> (\<exists>x. v = Signature x \<and> r = decryptThreshold_sig p cl h x st)"
  "resume p (DecryptThreshold_res cl h) v st = Some r \<longleftrightarrow> (\<exists>x. v = Decrypted x \<and> r = decryptThreshold_res cl h x st)"
  "resume p (Issue_timer cl to n) v st = Some r \<longleftrightarrow> v = Timer_fired \<and> r = issue_timer cl to n st"
  "resume p (Issue_enc cl to) v st = Some r \<longleftrightarrow> (\<exists>x. v = Encrypted x \<and> r = issue_enc p cl to x st)"
  "resume p (Issue_tx cl) v st = Some r \<longleftrightarrow> (\<exists>x. v = Sent x \<and> r = issue_tx cl x st)"
  "resume p (Issue_wait cl) v st = Some r \<longleftrightarrow> (\<exists>x. v = Receipt x \<and> r = issue_wait p cl x st)"
  "resume p (Transfer_timer cl to n) v st = Some r \<longleftrightarrow> v = Timer_fired \<and> r = transfer_timer cl to n st"
  "resume p (Transfer_enc cl to) v st = Some r \<longleftrightarrow> (\<exists>x. v = Encrypted x \<and> r = transfer_enc p cl to x st)"
  "resume p (Transfer_tx cl) v st = Some r \<longleftrightarrow> (\<exists>x. v = Sent x \<and> r = transfer_tx cl x st)"
  "resume p (Transfer_wait cl) v st = Some r \<longleftrightarrow> (\<exists>x. v = Receipt x \<and> r = transfer_wait p cl x st)"
  "resume p (Update_timer cl n) v st = Some r \<longleftrightarrow> v = Timer_fired \<and> r = update_timer cl n st"
  "resume p (Update_enc cl) v st = Some r \<longleftrightarrow> (\<exists>x. v = Encrypted x \<and> r = update_enc p cl x st)"
  "resume p (Update_tx cl) v st = Some r \<longleftrightarrow> (\<exists>x. v = Sent x \<and> r = update_tx cl x st)"
  "resume p (Update_wait cl) v st = Some r \<longleftrightarrow> (\<exists>x. v = Receipt x \<and> r = update_wait p cl x st)"
  "resume p (CheckRisk_tx cl) v st = Some r \<longleftrightarrow> (\<exists>x. v = Sent x \<and> r = checkRisk_tx cl x st)"
  "resume p (CheckRisk_wait cl) v st = Some r \<longleftrightarrow> (\<exists>x. v = Receipt x \<and> r = checkRisk_wait p cl x st)"
  "resume p (CheckRisk_sig cl h) v st = Some r \<longleftrightarrow> (\<exists>x. v = Signature x \<and> r = checkRisk_sig cl h x st)"
  "resume p (CheckRisk_res cl h) v st = Some r \<longleftrightarrow> (\<exists>x. v = Decrypted x \<and> r = checkRisk_res cl h x st)"
  by (cases v; simp add: resume_def; blast)+


section \<open>Entry guards\<close>

text \<open>
  Claim C10. For every amount less than or equal to zero, \<open>issue\<close> and \<open>transfer\<close> return
  at once: the state is the one they were called in (no busy flag set, no message) and no
  call is issued. \<open>updateRiskThreshold\<close> does the same for every threshold strictly below
  zero, and accepts zero: with its other guards passed, a threshold of zero sets the busy
  flag and starts the run at its timer.
\<close>

theorem nonpositive_amount_is_ignored:
  "(n \<le> 0 \<longrightarrow> issue p to (Num n) st = (st, []) \<and> transfer p to (Num n) st = (st, [])) \<and>
   (n < 0 \<longrightarrow> updateRiskThreshold p (Num n) st = (st, [])) \<and>
   (\<not> isRefreshingRef st \<and> \<not> isUpdatingThresholdRef st \<and> stableMonitor_address st = Some a \<and>
    a \<noteq> [] \<and> fhevmInstance p \<and> ethersSigner p = Some signer \<longrightarrow>
      isUpdatingThresholdRef (fst (updateRiskThreshold p (Num 0) st)) \<and>
      map fst (awaits (snd (updateRiskThreshold p (Num 0) st))) = [Call_setTimeout 100])"
  by (auto simp: issue_def transfer_def updateRiskThreshold_def split: option.splits)

theorem nonpositive_amount_is_ignored_witness:
  "issue alice_props (signer_address bob) (Num (- 3)) ready = (ready, []) \<and>
   transfer alice_props (signer_address bob) (Num 0) ready = (ready, []) \<and>
   updateRiskThreshold alice_props (Num (- 3)) ready = (ready, []) \<and>
   isUpdatingThresholdRef (fst (updateRiskThreshold alice_props (Num 0) ready)) \<and>
   map fst (awaits (snd (updateRiskThreshold alice_props (Num 0) ready))) = [Call_setTimeout 100]"
  using nonpositive_amount_is_ignored [of "- 3" alice_props "signer_address bob" ready contract alice]
    nonpositive_amount_is_ignored [of 0 alice_props "signer_address bob" ready contract alice]
  by (simp add: session_defs stableMonitor_address_def)

section \<open>decryptBalance\<close>

text \<open>
  Claim C5 as stated: whenever \<open>decryptBalance\<close> is invoked with the balance handle equal to
  the zero handle, it sets the clear balance to 0. It does not when an entry guard stands
  before the shortcut: here a refresh is in flight, the balance handle is the zero handle,
  and the invocation returns with the clear balance still undefined.
\<close>

theorem zero_handle_behind_a_guard:
  "exec table (mount table alice_props) zero_balance_trace \<noteq> None \<and>
   balanceHandle (hook_state (the (exec table (mount table alice_props) zero_balance_trace))) =
     Some ZeroHash \<and>
   clearBalance (hook_state (the (exec table (mount table alice_props) zero_balance_trace))) = None"
  by (simp add: zero_balance_trace_def run_defs sys_defs session_defs)

text \<open>
  Claim C5, amended. With the zero handle as balance handle, \<open>decryptBalance\<close> never issues
  a call, whatever the state. When its entry guards pass (no refresh and no decryption in
  flight; contract address, FHE instance and signer present; the handle not already the
  one cached in \<open>clearBalanceRef\<close>) it sets the clear balance, in the state cell and in the
  reference cell, to 0 for that handle and changes nothing else.
\<close>

theorem zero_handle_decrypts_locally:
  "(balanceHandle st = Some ZeroHash \<longrightarrow> snd (decryptBalance p st) = []) \<and>
   (balanceHandle st = Some ZeroHash \<and> \<not> isRefreshingRef st \<and> \<not> isDecryptingRef st \<and>
    stableMonitor_address st = Some a \<and> a \<noteq> [] \<and> fhevmInstance p \<and>
    ethersSigner p = Some signer \<and> map_option handle (clearBalanceRef st) \<noteq> Some ZeroHash \<longrightarrow>
      decryptBalance p st =
        (st\<lparr>clearBalance := Some \<lparr>handle = ZeroHash, clear = Some (CBig 0)\<rparr>,
            clearBalanceRef := Some \<lparr>handle = ZeroHash, clear = Some (CBig 0)\<rparr>\<rparr>, []))"
  by (auto simp: decryptBalance_def ZeroHash_def split: option.splits)

theorem zero_handle_decrypts_locally_witness:
  "snd (decryptBalance alice_props (ready\<lparr>balanceHandle := Some ZeroHash\<rparr>)) = [] \<and>
   decryptBalance alice_props (ready\<lparr>balanceHandle := Some ZeroHash\<rparr>) =
     (ready\<lparr>balanceHandle := Some ZeroHash,
            clearBalance := Some \<lparr>handle = ZeroHash, clear = Some (CBig 0)\<rparr>,
            clearBalanceRef := Some \<lparr>handle = ZeroHash, clear = Some (CBig 0)\<rparr>\<rparr>, [])"
  using zero_handle_decrypts_locally [of "ready\<lparr>balanceHandle := Some ZeroHash\<rparr>" alice_props
      contract alice]
  by (simp add: session_defs stableMonitor_address_def)

text \<open>An unsigned 32-bit value read as a signed one, in the arithmetic of the fix-up.\<close>

lemma sint32_of_uint32:
  assumes "0 \<le> v" "v \<le> 4294967295"
  shows "sint (word_of_int v :: 32 word) = (if v > 2147483647 then v - 4294967296 else v)"
proof -
  have u: "uint (word_of_int v :: 32 word) = v"
    using assms by (simp add: uint_word_of_int take_bit_eq_mod)
  have s: "sint (word_of_int v :: 32 word) = (v + 2147483648) mod 4294967296 - 2147483648"
    by (simp add: sint_uint signed_take_bit_eq_take_bit_shift take_bit_eq_mod u)
  show ?thesis
  proof (cases "v > 2147483647")
    case True
    have "(v + 2147483648) mod 4294967296 = (v - 2147483648 + 4294967296) mod 4294967296"
      by (simp add: algebra_simps)
    also have "\<dots> = (v - 2147483648) mod 4294967296"
      by (simp only: mod_add_self2)
    also have "\<dots> = v - 2147483648"
      using True assms by (simp add: mod_pos_pos_trivial)
    finally show ?thesis using True s by simp
  next
    case False
    then have "(v + 2147483648) mod 4294967296 = v + 2147483648"
      using assms by (simp add: mod_pos_pos_trivial)
    then show ?thesis using False s by simp
  qed
qed

text \<open>
  Claim C7. When the decryption round trip returns a number \<open>v\<close> for the balance handle and
  the session is not stale, the clear balance stored (state cell and reference cell alike)
  is \<open>v - 2^32\<close> if \<open>2^31 - 1 < v \<le> 2^32 - 1\<close>, and \<open>v\<close> unchanged if \<open>v \<le> 2^31 - 1\<close>. For every
  \<open>v\<close> within 32 bits that is the signed reading of the 32-bit word \<open>v\<close>.
\<close>

theorem decrypted_balance_is_read_as_signed32:
  assumes "\<not> isStale p st cl" and "map_of res h = Some (CBig v)"
  shows "(2 ^ 31 - 1 < v \<and> v \<le> 2 ^ 32 - 1 \<longrightarrow>
            clearBalance (fst (decryptBalance_res p cl h (Inr res) st)) =
              Some \<lparr>handle = h, clear = Some (CBig (v - 2 ^ 32))\<rparr>) \<and>
         (v \<le> 2 ^ 31 - 1 \<longrightarrow>
            clearBalance (fst (decryptBalance_res p cl h (Inr res) st)) =
              Some \<lparr>handle = h, clear = Some (CBig v)\<rparr>) \<and>
         (0 \<le> v \<and> v \<le> 2 ^ 32 - 1 \<longrightarrow>
            clearBalance (fst (decryptBalance_res p cl h (Inr res) st)) =
              Some \<lparr>handle = h, clear = Some (CBig (sint (word_of_int v :: 32 word)))\<rparr>) \<and>
         clearBalanceRef (fst (decryptBalance_res p cl h (Inr res) st)) =
           clearBalance (fst (decryptBalance_res p cl h (Inr res) st))"
  using assms by (simp add: decryptBalance_res_def sint32_of_uint32)

theorem decrypted_balance_is_read_as_signed32_witness:
  "clearBalance (fst (decryptBalance_res alice_props alice_closure handle1
      (Inr [(handle1, CBig 4294967291)]) decrypting)) =
     Some \<lparr>handle = handle1, clear = Some (CBig (- 5))\<rparr> \<and>
   clearBalance (fst (decryptBalance_res alice_props alice_closure handle1
      (Inr [(handle1, CBig 2147483647)]) decrypting)) =
     Some \<lparr>handle = handle1, clear = Some (CBig 2147483647)\<rparr> \<and>
   sint (word_of_int 4294967291 :: 32 word) = - 5"
proof -
  have a: "\<not> isStale alice_props decrypting alice_closure"
    by (simp add: isStale_def sameChain_def sameSigner_def stableMonitor_address_def session_defs
        decrypting_def)
  have b: "map_of [(handle1, CBig 4294967291)] handle1 = Some (CBig 4294967291)"
    and c: "map_of [(handle1, CBig 2147483647)] handle1 = Some (CBig 2147483647)"
    by simp_all
  from decrypted_balance_is_read_as_signed32 [OF a b]
    decrypted_balance_is_read_as_signed32 [OF a c]
  show ?thesis by simp
qed

section \<open>Busy flags\<close>

text \<open>What one resumed segment does to the flags: it leaves the set flags of the other
  operations set, it issues at most one acceptable call, it keeps state cells and
  reference cells in step, and when its \<open>run\<close> is over its own flag is reset.\<close>

lemma resume_keeps_others:
  assumes "resume p k v st = Some r" "q \<noteq> kind k" "busy q st"
  shows "busy q (fst r)"
  using assms
  by (cases k; cases q;
      clarsimp simp: resume_iff run_defs split: sum.split option.split prod.split)

lemma resume_awaits_ok:
  assumes "resume p k v st = Some r" "busy (kind k) st"
  shows "awaits_ok (Some (kind k)) st (fst r) (fst (snd r))"
  using assms
  by (cases k;
      clarsimp simp: resume_iff run_defs awaits_ok_def split: sum.split option.split prod.split)

lemma resume_flags_agree:
  assumes "resume p k v st = Some r" "flags_agree st"
  shows "flags_agree (fst r)"
  using assms
  by (cases k;
      clarsimp simp: resume_iff run_defs flags_agree_def split: sum.split option.split prod.split)

lemma resume_settles:
  assumes "resume p k v st = Some r"
  shows "(snd (snd r) \<noteq> Running \<longrightarrow> \<not> busy (kind k) (fst r) \<and> \<not> busy_state (kind k) (fst r)) \<and>
         (snd (snd r) = Running \<longrightarrow>
            (\<exists>c k'. fst (snd r) = [Await c k'] \<and> kind k' = kind k \<and> steps_left k' < steps_left k))"
  using assms
  by (cases k;
      clarsimp simp: resume_iff run_defs split: sum.split option.split prod.split)

lemma invoke_mono: "busy q st \<Longrightarrow> busy q (fst (invoke p a st))"
  by (cases a; cases q; simp add: run_defs split: option.split)

lemma invoke_awaits_ok: "awaits_ok None st (fst (invoke p a st)) (snd (invoke p a st))"
  by (cases a; simp add: run_defs awaits_ok_def split: option.split)

lemma invoke_flags_agree: "flags_agree st \<Longrightarrow> flags_agree (fst (invoke p a st))"
  by (cases a; simp add: run_defs flags_agree_def split: option.split)

lemma refresh_mono: "busy q st \<Longrightarrow> busy q (fst (refreshBalance pr u st))"
  using invoke_mono [of q st "\<lparr>fhevmInstance = True, chainId = None, ethersSigner = None,
      ethersReadonlyProvider = pr, userAddress = u\<rparr>" Refresh_balance] by simp

lemma refresh_awaits_ok:
  "awaits_ok None st (fst (refreshBalance pr u st)) (snd (refreshBalance pr u st))"
  using invoke_awaits_ok [of st "\<lparr>fhevmInstance = True, chainId = None, ethersSigner = None,
      ethersReadonlyProvider = pr, userAddress = u\<rparr>" Refresh_balance] by simp

lemma refresh_flags_agree: "flags_agree st \<Longrightarrow> flags_agree (fst (refreshBalance pr u st))"
  using invoke_flags_agree [of st "\<lparr>fhevmInstance = True, chainId = None, ethersSigner = None,
      ethersReadonlyProvider = pr, userAddress = u\<rparr>" Refresh_balance] by simp

lemma useMemo_busy: "busy q (useMemo_stableMonitor tab c st) = busy q st"
  by (cases q; simp add: useMemo_stableMonitor_def)

lemma useMemo_flags: "flags_agree (useMemo_stableMonitor tab c st) = flags_agree st"
  by (simp add: useMemo_stableMonitor_def flags_agree_def)

text \<open>Adding the calls of a segment to the pending continuations keeps them flagged and
  of distinct kinds.\<close>

lemma pending_extend:
  assumes rem: "\<forall>ck \<in> set ps. busy (kind (snd ck)) st \<and> Some (kind (snd ck)) \<noteq> K"
    and dist: "distinct (map (kind \<circ> snd) ps)"
    and mono: "\<And>q. Some q \<noteq> K \<Longrightarrow> busy q st \<Longrightarrow> busy q st'"
    and new: "awaits_ok K st st' effs"
  shows "(\<forall>ck \<in> set (ps @ awaits effs). busy (kind (snd ck)) st') \<and>
         distinct (map (kind \<circ> snd) (ps @ awaits effs))"
proof (cases "awaits effs")
  case Nil
  then show ?thesis using rem dist mono by auto
next
  case (Cons ck rest)
  with new have rest: "rest = []"
    and ck: "busy (kind (snd ck)) st'" "Some (kind (snd ck)) = K \<or> \<not> busy (kind (snd ck)) st"
    by (auto simp: awaits_ok_def split: list.splits)
  have fresh: "kind (snd ck) \<notin> (kind \<circ> snd) ` set ps"
    using ck(2) rem by auto
  show ?thesis
    using Cons rest ck(1) fresh rem dist mono by auto
qed

lemma remove_nth_distinct:
  assumes "distinct (map f ps)" "i < length ps"
  shows "(\<forall>x \<in> set (take i ps @ drop (Suc i) ps). f x \<noteq> f (ps ! i)) \<and>
         distinct (map f (take i ps @ drop (Suc i) ps)) \<and>
         set (take i ps @ drop (Suc i) ps) \<subseteq> set ps"
proof -
  have "ps = take i ps @ ps ! i # drop (Suc i) ps"
    using assms(2) by (rule id_take_nth_drop)
  then have "distinct (map f (take i ps @ ps ! i # drop (Suc i) ps))"
    using assms(1) by simp
  then have "(\<forall>x \<in> set (take i ps @ drop (Suc i) ps). f x \<noteq> f (ps ! i)) \<and>
         distinct (map f (take i ps @ drop (Suc i) ps))"
    by (fastforce simp: image_iff)
  moreover have "set (take i ps @ drop (Suc i) ps) \<subseteq> set ps"
    using set_take_subset set_drop_subset by fastforce
  ultimately show ?thesis by blast
qed

lemma inv_invoke:
  assumes "inv s"
  shows "inv (s\<lparr>hook_state := fst (invoke p a (hook_state s)),
               pending := pending s @ awaits (snd (invoke p a (hook_state s))),
               trace := t\<rparr>)"
proof -
  have "(\<forall>ck \<in> set (pending s @ awaits (snd (invoke p a (hook_state s)))).
           busy (kind (snd ck)) (fst (invoke p a (hook_state s)))) \<and>
        distinct (map (kind \<circ> snd) (pending s @ awaits (snd (invoke p a (hook_state s)))))"
    using assms by (intro pending_extend [where K = None and st = "hook_state s"])
      (auto simp: inv_def invoke_mono invoke_awaits_ok)
  then show ?thesis
    using assms by (simp add: inv_def invoke_flags_agree)
qed

lemma inv_render: "inv s \<Longrightarrow> inv (render tab p' s)"
proof -
  assume i: "inv s"
  define st0 where "st0 = (if chainId p' \<noteq> chainId (props s)
     then useMemo_stableMonitor tab (chainId p') (hook_state s) else hook_state s)"
  have b0: "busy q st0 = busy q (hook_state s)" for q
    by (simp add: st0_def useMemo_busy)
  have f0: "flags_agree st0" using i by (simp add: st0_def useMemo_flags inv_def)
  have p0: "\<forall>ck \<in> set (pending s). busy (kind (snd ck)) st0 \<and> Some (kind (snd ck)) \<noteq> None"
    using i by (simp add: inv_def b0)
  have d0: "distinct (map (kind \<circ> snd) (pending s))" using i by (simp add: inv_def)
  show ?thesis
  proof (cases "ethersReadonlyProvider p' \<noteq> ethersReadonlyProvider (props s) \<or>
               userAddress p' \<noteq> userAddress (props s)")
    case True
    have "(\<forall>ck \<in> set (pending s @ awaits (snd (refreshBalance (ethersReadonlyProvider p') (userAddress p') st0))).
             busy (kind (snd ck)) (fst (refreshBalance (ethersReadonlyProvider p') (userAddress p') st0))) \<and>
          distinct (map (kind \<circ> snd)
             (pending s @ awaits (snd (refreshBalance (ethersReadonlyProvider p') (userAddress p') st0))))"
      using p0 d0 by (intro pending_extend [where K = None and st = st0])
        (auto simp: refresh_mono refresh_awaits_ok)
    then show ?thesis
      using True f0 unfolding render_def st0_def [symmetric]
      by (simp add: inv_def case_prod_beta refresh_flags_agree)
  next
    case False
    then show ?thesis
      using p0 d0 f0 unfolding render_def st0_def [symmetric]
      by (simp add: inv_def)
  qed
qed

lemma inv_mount: "inv (mount tab p)"
proof -
  define st0 where "st0 = useMemo_stableMonitor tab (chainId p) initial"
  have "flags_agree initial" by (simp add: flags_agree_def initial_def)
  then have f0: "flags_agree st0" by (simp add: st0_def useMemo_flags)
  have "(\<forall>ck \<in> set ([] @ awaits (snd (refreshBalance (ethersReadonlyProvider p) (userAddress p) st0))).
             busy (kind (snd ck)) (fst (refreshBalance (ethersReadonlyProvider p) (userAddress p) st0))) \<and>
          distinct (map (kind \<circ> snd)
             ([] @ awaits (snd (refreshBalance (ethersReadonlyProvider p) (userAddress p) st0))))"
    by (intro pending_extend [where K = None and st = st0])
      (auto simp: refresh_mono refresh_awaits_ok)
  then show ?thesis
    using f0 unfolding mount_def st0_def [symmetric]
    by (simp add: inv_def case_prod_beta refresh_flags_agree)
qed

lemma inv_settle:
  assumes i: "inv s" and n: "i < length (pending s)"
    and r: "resume (props s) (snd (pending s ! i)) v (hook_state s) = Some r"
  shows "inv (s\<lparr>hook_state := fst r,
               pending := take i (pending s) @ drop (Suc i) (pending s) @ awaits (fst (snd r)),
               trace := t, unhandled := u\<rparr>)"
proof -
  let ?ps = "take i (pending s) @ drop (Suc i) (pending s)"
  let ?K = "kind (snd (pending s ! i))"
  have d: "distinct (map (kind \<circ> snd) (pending s))" using i by (simp add: inv_def)
  have rm: "(\<forall>x \<in> set ?ps. (kind \<circ> snd) x \<noteq> (kind \<circ> snd) (pending s ! i)) \<and>
         distinct (map (kind \<circ> snd) ?ps) \<and> set ?ps \<subseteq> set (pending s)"
    using remove_nth_distinct [OF d n] .
  have own: "busy ?K (hook_state s)"
    using i n by (simp add: inv_def)
  have rem: "\<forall>ck \<in> set ?ps. busy (kind (snd ck)) (hook_state s) \<and> Some (kind (snd ck)) \<noteq> Some ?K"
    using rm i by (auto simp: inv_def)
  have "(\<forall>ck \<in> set (?ps @ awaits (fst (snd r))). busy (kind (snd ck)) (fst r)) \<and>
        distinct (map (kind \<circ> snd) (?ps @ awaits (fst (snd r))))"
    using rem rm resume_awaits_ok [OF r own]
    by (intro pending_extend [where K = "Some ?K" and st = "hook_state s"])
      (auto intro: resume_keeps_others [OF r])
  then show ?thesis
    using i resume_flags_agree [OF r] by (simp add: inv_def)
qed

lemma inv_step: "inv s \<Longrightarrow> step tab s e = Some s' \<Longrightarrow> inv s'"
proof (cases e)
  case (Invoke a)
  assume "inv s" "step tab s e = Some s'"
  then show ?thesis
    using Invoke inv_invoke [where s = s and p = "props s" and a = a]
    by (auto simp: case_prod_beta)
next
  case (Render p')
  assume "inv s" "step tab s e = Some s'"
  then show ?thesis using Render inv_render by auto
next
  case (Settle i v)
  assume "inv s" "step tab s e = Some s'"
  then show ?thesis
    using Settle inv_settle [where s = s and i = i and v = v]
    by (auto simp: case_prod_beta split: if_splits option.splits)
qed

lemma inv_exec: "inv s \<Longrightarrow> exec tab s es = Some s' \<Longrightarrow> inv s'"
  by (induction es arbitrary: s) (auto split: option.splits dest: inv_step)

lemma inv_reachable: "exec tab (mount tab p) es = Some s \<Longrightarrow> inv s"
  using inv_exec [OF inv_mount] .

lemma issue_started_reached:
  "exec table (mount table alice_props) issue_started = Some issue_started_sys"
  by (simp add: issue_started_def issue_started_sys_def run_defs sys_defs session_defs number_toString_def)

text \<open>
  Claim C8. In every state the hook reaches from its first render, whatever the events,
  a pending continuation has the busy flag of its operation set, in the reference cell the
  entry guard reads and in the state cell the view shows. While a run of \<open>issue\<close>,
  \<open>transfer\<close> or \<open>updateRiskThreshold\<close> is pending, a second invocation of the same
  operation leaves the whole system as it is: no state change, no call, nothing pending
  added. Each of the three, when it starts at all, starts by waiting for a timer of 100 ms,
  and the encryption call is issued by the continuation of that timer.
\<close>

theorem busy_flag_excludes_reentry:
  assumes "exec tab (mount tab p0) es = Some s" and "(c, k) \<in> set (pending s)"
  shows "busy (kind k) (hook_state s) \<and> busy_state (kind k) (hook_state s) \<and>
         (kind k = Issue \<longrightarrow> step tab s (Invoke (Do_issue to n)) = Some s) \<and>
         (kind k = Transfer \<longrightarrow> step tab s (Invoke (Do_transfer to n)) = Some s) \<and>
         (kind k = UpdateThreshold \<longrightarrow> step tab s (Invoke (Update_risk_threshold n)) = Some s) \<and>
         (snd (issue p to n st) = [] \<or>
          (\<exists>cl. snd (issue p to n st) = [Await (Call_setTimeout 100) (Issue_timer cl to n)])) \<and>
         (snd (transfer p to n st) = [] \<or>
          (\<exists>cl. snd (transfer p to n st) = [Await (Call_setTimeout 100) (Transfer_timer cl to n)])) \<and>
         (snd (updateRiskThreshold p n st) = [] \<or>
          (\<exists>cl. snd (updateRiskThreshold p n st) = [Await (Call_setTimeout 100) (Update_timer cl n)])) \<and>
         map fst (awaits (fst (snd (issue_timer cl to n st)))) =
           [Call_encrypt (thisContractAddress cl) (signer_address (thisEthersSigner cl)) n] \<and>
         map fst (awaits (fst (snd (transfer_timer cl to n st)))) =
           [Call_encrypt (thisContractAddress cl) (signer_address (thisEthersSigner cl)) n] \<and>
         map fst (awaits (fst (snd (update_timer cl n st)))) =
           [Call_encrypt (thisContractAddress cl) (signer_address (thisEthersSigner cl)) n]"
proof -
  have i: "inv s" using assms(1) by (rule inv_reachable)
  have b: "busy (kind k) (hook_state s)"
    using i assms(2) by (auto simp: inv_def)
  have f: "flags_agree (hook_state s)" using i by (simp add: inv_def)
  have bs: "busy_state (kind k) (hook_state s)"
    using b f by (cases "kind k") (simp_all add: flags_agree_def)
  have again: "kind k = Issue \<longrightarrow> step tab s (Invoke (Do_issue to n)) = Some s"
    "kind k = Transfer \<longrightarrow> step tab s (Invoke (Do_transfer to n)) = Some s"
    "kind k = UpdateThreshold \<longrightarrow> step tab s (Invoke (Update_risk_threshold n)) = Some s"
    using b by (auto simp: issue_def transfer_def updateRiskThreshold_def)
  have start: "snd (issue p to n st) = [] \<or>
          (\<exists>cl. snd (issue p to n st) = [Await (Call_setTimeout 100) (Issue_timer cl to n)])"
    "snd (transfer p to n st) = [] \<or>
          (\<exists>cl. snd (transfer p to n st) = [Await (Call_setTimeout 100) (Transfer_timer cl to n)])"
    "snd (updateRiskThreshold p n st) = [] \<or>
          (\<exists>cl. snd (updateRiskThreshold p n st) = [Await (Call_setTimeout 100) (Update_timer cl n)])"
    by (simp_all add: issue_def transfer_def updateRiskThreshold_def split: option.split)
  show ?thesis
    using b bs again start by (simp add: issue_timer_def transfer_timer_def update_timer_def)
qed

theorem busy_flag_excludes_reentry_witness:
  "exec table (mount table alice_props) issue_started = Some issue_started_sys \<and>
   isIssuingRef (hook_state issue_started_sys) \<and> isIssuing (hook_state issue_started_sys) \<and>
   step table issue_started_sys (Invoke (Do_issue (signer_address alice) (Num 7))) =
     Some issue_started_sys"
proof -
  have m: "(Call_setTimeout 100, Issue_timer alice_closure (signer_address bob) (Num 5))
      \<in> set (pending issue_started_sys)"
    by (simp add: issue_started_sys_def)
  from busy_flag_excludes_reentry [OF issue_started_reached m,
      where to = "signer_address alice" and n = "Num 7"]
  show ?thesis using issue_started_reached by simp
qed

text \<open>
  Claim C9. Whenever a continuation of any operation runs and its \<open>run\<close> is then over
  (returned, or left by an exception), the busy flag of its operation is false, reference
  cell and state cell, whether the run succeeded, was discarded as stale, or failed; so
  the entry guard on that flag passes again. And a run that is not over waits for exactly
  one call with strictly fewer \<open>await\<close>s left: it is over after at most five settled calls.
\<close>

theorem settled_run_resets_its_busy_flag:
  assumes "resume p k v st = Some (st', effs, done)"
  shows "(done \<noteq> Running \<longrightarrow> \<not> busy (kind k) st' \<and> \<not> busy_state (kind k) st') \<and>
         (done = Running \<longrightarrow>
            (\<exists>c k'. effs = [Await c k'] \<and> kind k' = kind k \<and> steps_left k' < steps_left k))"
  using resume_settles [OF assms] by simp

theorem settled_run_resets_its_busy_flag_witness:
  "resume alice_props (DecryptBalance_res alice_closure handle1)
     (Decrypted (Inl (Error ''relayer unavailable''))) decrypting =
     Some (ready\<lparr>message := ''Calling FHEVM userDecrypt...''\<rparr>, [],
           Thrown (Error ''relayer unavailable'')) \<and>
   \<not> isDecryptingRef (ready\<lparr>message := ''Calling FHEVM userDecrypt...''\<rparr>) \<and>
   \<not> isDecrypting (ready\<lparr>message := ''Calling FHEVM userDecrypt...''\<rparr>) \<and>
   resume bob_props (Issue_tx alice_closure) (Sent (Inr tx1)) issuing =
     Some (issuing, [Await (Call_wait tx1) (Issue_wait alice_closure)], Running) \<and>
   steps_left (Issue_wait alice_closure) < steps_left (Issue_tx alice_closure)"
proof -
  have a: "resume alice_props (DecryptBalance_res alice_closure handle1)
     (Decrypted (Inl (Error ''relayer unavailable''))) decrypting =
     Some (ready\<lparr>message := ''Calling FHEVM userDecrypt...''\<rparr>, [],
           Thrown (Error ''relayer unavailable''))"
    by (simp add: resume_def decryptBalance_res_def session_defs decrypting_def)
  have b: "resume bob_props (Issue_tx alice_closure) (Sent (Inr tx1)) issuing =
     Some (issuing, [Await (Call_wait tx1) (Issue_wait alice_closure)], Running)"
    by (simp add: resume_def issue_tx_def session_defs issuing_def tx1_def)
  from settled_run_resets_its_busy_flag [OF a] settled_run_resets_its_busy_flag [OF b]
  show ?thesis using a b by simp
qed

section \<open>Mutating operations\<close>

text \<open>\<open>refreshBalance\<close> records its entry once, whatever its guards decide.\<close>

lemma refresh_count_refreshBalance [simp]: "refresh_count (snd (refreshBalance pr u st)) = 1"
  by (simp add: refreshBalance_def split: option.split)




section \<open>Failures and outcomes\<close>

text \<open>
  Claim C3 says that every failure of an external call is caught inside the operation and
  turned into a status message. In \<open>decryptBalance\<close> it is not: Alice decrypts her balance,
  the signature is there, and the decryption round trip rejects. The run ends with the
  rejection unhandled, and the message is still the progress message written before the
  call.
\<close>

theorem decryptBalance_rejection_escapes:
  "exec table (mount table alice_props) decrypt_rejected =
     Some \<lparr>hook_state = ready\<lparr>message := ''Calling FHEVM userDecrypt...''\<rparr>,
           props = alice_props, pending = [],
           trace =
             [Invoke_refreshBalance,
              Await (Call_getHandles contract (signer_address alice))
                (RefreshBalance_then (Some 11155111) contract),
              Await (Call_loadOrSign contract alice) (DecryptBalance_sig alice_closure handle1),
              Await (Call_userDecrypt handle1 contract signature1)
                (DecryptBalance_res alice_closure handle1)],
           unhandled = [Error ''relayer unavailable'']\<rparr>"
  by (simp add: decrypt_rejected_def signature1_def run_defs sys_defs session_defs)

text \<open>No other continuation leaves its run by an exception: the runs of the other
  operations catch.\<close>

lemma resume_throws:
  assumes "resume p k v st = Some r"
  shows "case snd (snd r) of
           Thrown e \<Rightarrow> (\<exists>cl h. k = DecryptBalance_sig cl h \<or> k = DecryptBalance_res cl h)
         | _ \<Rightarrow> True"
  using assms
  by (cases k;
      clarsimp simp: resume_iff run_defs split: sum.split option.split prod.split)

lemma only_decryptBalance_leaves_by_exception:
  assumes "resume p k v st = Some (st', effs, Thrown e)"
  shows "\<exists>cl h. k = DecryptBalance_sig cl h \<or> k = DecryptBalance_res cl h"
  using resume_throws [OF assms] by simp

text \<open>
  Claim C2 says that a risk check that started ends with a verdict or with a terminal
  error message. Here the transaction is confirmed, the receipt carries the \<open>RiskCheck\<close>
  event, the session is unchanged, and the decryption signature cannot be built
  (\<open>loadOrSign\<close> resolves to \<open>null\<close>): the run ends with neither. The message is still the
  one written at the start, no clear flag is stored, and nothing is reported as failed.
\<close>

theorem checkRisk_without_signature_is_silent:
  "exec table (mount table alice_props) risk_check_unsigned =
     Some \<lparr>hook_state =
             ready\<lparr>riskFlagHandle := Some handle4,
                   message := ''Checking risk for 0x3C44CdDdB6a900fa2b585dd299e03d12FA4293BC...''\<rparr>,
           props = alice_props, pending = [],
           trace =
             [Invoke_refreshBalance,
              Await (Call_getHandles contract (signer_address alice))
                (RefreshBalance_then (Some 11155111) contract),
              Await (Call_performRiskCheck contract (signer_address bob)) (CheckRisk_tx alice_closure),
              Await (Call_wait tx1) (CheckRisk_wait alice_closure),
              Await (Call_loadOrSign contract alice) (CheckRisk_sig alice_closure handle4)],
           unhandled = []\<rparr>"
  by (simp add: risk_check_unsigned_def riskCheck_receipt_def tx1_def run_defs sys_defs
      session_defs toLowerCase_def)

text \<open>On every other path a risk check that ends has written a verdict or one of its
  terminal messages.\<close>

lemma checkRisk_messages:
  assumes "resume p k v st = Some r" "kind k = CheckRisk"
  shows "case snd (snd r) of
           Running \<Rightarrow> True
         | Fulfilled \<Rightarrow>
             if v = Signature (Inr None) then True
             else message (fst r) \<in>
               {''Risk check completed: RISK DETECTED'', ''Risk check completed: SAFE'',
                ''Ignore risk check'', ''Transaction receipt is null'',
                ''Risk check transaction succeeded but event not found''} \<union>
               {m. \<exists>e. m = ''Risk check failed: '' @ message_or_error e}
         | Thrown e \<Rightarrow> False"
  using assms
  by (cases k;
      clarsimp simp: resume_iff checkRisk_tx_def checkRisk_wait_def checkRisk_sig_def
        checkRisk_res_def checkRisk_failed_def split: sum.split option.split;
      blast?)

lemma checkRisk_ends_with_one_message:
  assumes "resume p k v st = Some (st', effs, done)" and "kind k = CheckRisk"
    and "done \<noteq> Running" and "v \<noteq> Signature (Inr None)"
  shows "done = Fulfilled \<and>
         (message st' = ''Risk check completed: RISK DETECTED'' \<or>
          message st' = ''Risk check completed: SAFE'' \<or>
          message st' = ''Ignore risk check'' \<or>
          message st' = ''Transaction receipt is null'' \<or>
          message st' = ''Risk check transaction succeeded but event not found'' \<or>
          (\<exists>e. message st' = ''Risk check failed: '' @ message_or_error e))"
  using checkRisk_messages [OF assms(1,2)] assms(3,4)
  by (cases "done") auto

section \<open>The cached clear balance\<close>

text \<open>
  Claim C4 says that the clear value cached for a handle is no longer shown once the
  balance handle has changed. Alice decrypts her balance of 100 under \<open>handle1\<close> and then
  transfers 40; the refresh after the transfer brings \<open>handle4\<close>. The hook's own
  \<open>isBalanceDecrypted\<close> is false, and the wallet view, which does not read it, still
  shows 100 tokens.
\<close>

theorem stale_clear_balance_is_shown:
  "exec table (mount table alice_props) decrypt_then_transfer \<noteq> None \<and>
   balanceHandle (hook_state (the (exec table (mount table alice_props) decrypt_then_transfer))) =
     Some handle4 \<and>
   clearBalance (hook_state (the (exec table (mount table alice_props) decrypt_then_transfer))) =
     Some \<lparr>handle = handle1, clear = Some (CBig 100)\<rparr> \<and>
   \<not> isBalanceDecrypted
       (hook_state (the (exec table (mount table alice_props) decrypt_then_transfer))) \<and>
   decryptedBalanceRow
       (hook_state (the (exec table (mount table alice_props) decrypt_then_transfer))) =
     ''100 tokens''"
  by (simp add: decrypt_then_transfer_def signature1_def plain_receipt_def tx1_def run_defs
      sys_defs session_defs isBalanceDecrypted_def
      decryptedBalanceRow_def show_int_def)

section \<open>Staleness\<close>

text \<open>
  Claim C1 as stated covers the balance refresh and a change of signer. A refresh started
  for Alice is in flight when the wallet switches to Bob on the same chain; the effect
  that would refresh for Bob is turned away by the busy flag; the reads for Alice then
  resolve and her balance handle is committed in Bob's session.
\<close>

theorem refresh_commits_after_signer_switch:
  "map fst (pending (mount table alice_props)) =
     [Call_getHandles contract (signer_address alice)] \<and>
   balanceHandle (hook_state (mount table alice_props)) = None \<and>
   exec table (mount table alice_props) switch_during_refresh \<noteq> None \<and>
   ethersSigner (props (the (exec table (mount table alice_props) switch_during_refresh))) =
     Some bob \<and>
   userAddress (props (the (exec table (mount table alice_props) switch_during_refresh))) =
     Some (signer_address bob) \<and>
   balanceHandle (hook_state (the (exec table (mount table alice_props) switch_during_refresh))) =
     Some handle1"
  by (simp add: switch_during_refresh_def run_defs sys_defs session_defs)

lemma elsewhere_reached:
  "exec table (mount table alice_props)
     [Settle 0 (Handles (Inr (handle1, handle2, handle3))), Invoke Refresh_balance,
      Render alice_elsewhere] =
     Some \<lparr>hook_state = elsewhere, props = alice_elsewhere,
           pending = [(Call_getHandles contract (signer_address alice),
                       RefreshBalance_then (Some 11155111) contract)],
           trace = [Invoke_refreshBalance,
                    Await (Call_getHandles contract (signer_address alice))
                      (RefreshBalance_then (Some 11155111) contract),
                    Invoke_refreshBalance,
                    Await (Call_getHandles contract (signer_address alice))
                      (RefreshBalance_then (Some 11155111) contract),
                    Invoke_refreshBalance],
           unhandled = []\<rparr>"
  by (simp add: elsewhere_def alice_elsewhere_def refreshing_def run_defs sys_defs session_defs)

lemma isStale_iff:
  "isStale p st cl \<longleftrightarrow>
     chainId p \<noteq> thisChainId cl \<or> ethersSigner p \<noteq> Some (thisEthersSigner cl) \<or>
     stableMonitor_address st \<noteq> Some (thisContractAddress cl)"
  by (auto simp: isStale_def sameChain_def sameSigner_def)

text \<open>A continuation that changes the clear balance is the last one of \<open>decryptBalance\<close>,
  run in a session that is not stale.\<close>

lemma resume_clearBalance:
  assumes "resume p k v st = Some r"
  shows "if clearBalance (fst r) = clearBalance st then True
         else \<exists>cl h. k = DecryptBalance_res cl h \<and> \<not> isStale p st cl"
  using assms
  by (cases k;
      clarsimp simp: resume_iff run_defs split: sum.split option.split prod.split;
      (simp split: sum.splits)?)

text \<open>
  Claim C1, amended. For \<open>decryptBalance\<close>, \<open>issue\<close>, \<open>transfer\<close> and \<open>updateRiskThreshold\<close>:
  if, at a staleness check (after the signature or the encryption, and after the
  decryption round trip or the confirmation), the chain, the signer or the contract
  address differs from the one the request started under, the run ends there with its
  "Ignore" message and its busy flag reset, and nothing else is changed: no clear balance,
  no submission, no refresh. In particular a balance decrypted for a session that is no
  longer current is never written to \<open>clearBalance\<close>, resolved or rejected, and whenever
  the continuation of any operation changes \<open>clearBalance\<close>, it is the one of
  \<open>decryptBalance\<close> after the round trip and chain, signer and contract address are those
  it started under. For \<open>refreshBalance\<close> the handles read are dropped when the chain or
  the contract address differs, and committed when both are unchanged; the signer is not
  looked at.
\<close>

theorem stale_results_are_discarded:
  assumes "chainId p \<noteq> thisChainId cl \<or> ethersSigner p \<noteq> Some (thisEthersSigner cl) \<or>
           stableMonitor_address st \<noteq> Some (thisContractAddress cl)"
  shows
    "decryptBalance_sig p cl h (Inr (Some sig)) st =
       (st\<lparr>message := ''Ignore FHEVM decryption'', isDecryptingRef := False,
           isDecrypting := False\<rparr>, [], Fulfilled) \<and>
     decryptBalance_res p cl h (Inr res) st =
       (st\<lparr>message := ''Ignore FHEVM decryption'', isDecryptingRef := False,
           isDecrypting := False\<rparr>, [], Fulfilled) \<and>
     clearBalance (fst (decryptBalance_res p cl h r st)) = clearBalance st \<and>
     clearBalanceRef (fst (decryptBalance_res p cl h r st)) = clearBalanceRef st \<and>
     issue_enc p cl to (Inr enc) st =
       (st\<lparr>message := ''Ignore issue'', isIssuingRef := False, isIssuing := False\<rparr>,
        [], Fulfilled) \<and>
     issue_wait p cl (Inr receipt) st =
       (st\<lparr>message := ''Ignore issue'', isIssuingRef := False, isIssuing := False\<rparr>,
        [], Fulfilled) \<and>
     transfer_enc p cl to (Inr enc) st =
       (st\<lparr>message := ''Ignore transfer'', isTransferringRef := False,
           isTransferring := False\<rparr>, [], Fulfilled) \<and>
     transfer_wait p cl (Inr receipt) st =
       (st\<lparr>message := ''Ignore transfer'', isTransferringRef := False,
           isTransferring := False\<rparr>, [], Fulfilled) \<and>
     update_enc p cl (Inr enc) st =
       (st\<lparr>message := ''Ignore updateRiskThreshold'', isUpdatingThresholdRef := False,
           isUpdatingThreshold := False\<rparr>, [], Fulfilled) \<and>
     update_wait p cl (Inr receipt) st =
       (st\<lparr>message := ''Ignore updateRiskThreshold'', isUpdatingThresholdRef := False,
           isUpdatingThreshold := False\<rparr>, [], Fulfilled) \<and>
     (chainId p \<noteq> c \<or> stableMonitor_address st \<noteq> Some a \<longrightarrow>
        refreshBalance_then p c a (Inr handles) st =
          (st\<lparr>isRefreshingRef := False, isRefreshing := False\<rparr>, [], Fulfilled)) \<and>
     (chainId p = c \<and> stableMonitor_address st = Some a \<longrightarrow>
        balanceHandle (fst (refreshBalance_then p c a (Inr handles) st)) = Some (fst handles)) \<and>
     (resume p k v st = Some done \<and> clearBalance (fst done) \<noteq> clearBalance st \<longrightarrow>
        (\<exists>cl' h'. k = DecryptBalance_res cl' h' \<and> chainId p = thisChainId cl' \<and>
           ethersSigner p = Some (thisEthersSigner cl') \<and>
           stableMonitor_address st = Some (thisContractAddress cl')))"
proof -
  have s: "isStale p st cl" using assms by (simp add: isStale_iff)
  have d: "decryptBalance_sig p cl h (Inr (Some sig)) st =
       (st\<lparr>message := ''Ignore FHEVM decryption'', isDecryptingRef := False,
           isDecrypting := False\<rparr>, [], Fulfilled) \<and>
     decryptBalance_res p cl h (Inr res) st =
       (st\<lparr>message := ''Ignore FHEVM decryption'', isDecryptingRef := False,
           isDecrypting := False\<rparr>, [], Fulfilled) \<and>
     clearBalance (fst (decryptBalance_res p cl h r st)) = clearBalance st \<and>
     clearBalanceRef (fst (decryptBalance_res p cl h r st)) = clearBalanceRef st"
    using s by (simp add: decryptBalance_sig_def decryptBalance_res_def split: sum.split)
  have m: "issue_enc p cl to (Inr enc) st =
       (st\<lparr>message := ''Ignore issue'', isIssuingRef := False, isIssuing := False\<rparr>,
        [], Fulfilled) \<and>
     issue_wait p cl (Inr receipt) st =
       (st\<lparr>message := ''Ignore issue'', isIssuingRef := False, isIssuing := False\<rparr>,
        [], Fulfilled) \<and>
     transfer_enc p cl to (Inr enc) st =
       (st\<lparr>message := ''Ignore transfer'', isTransferringRef := False,
           isTransferring := False\<rparr>, [], Fulfilled) \<and>
     transfer_wait p cl (Inr receipt) st =
       (st\<lparr>message := ''Ignore transfer'', isTransferringRef := False,
           isTransferring := False\<rparr>, [], Fulfilled) \<and>
     update_enc p cl (Inr enc) st =
       (st\<lparr>message := ''Ignore updateRiskThreshold'', isUpdatingThresholdRef := False,
           isUpdatingThreshold := False\<rparr>, [], Fulfilled) \<and>
     update_wait p cl (Inr receipt) st =
       (st\<lparr>message := ''Ignore updateRiskThreshold'', isUpdatingThresholdRef := False,
           isUpdatingThreshold := False\<rparr>, [], Fulfilled)"
    using s by (simp add: issue_enc_def issue_wait_def transfer_enc_def transfer_wait_def
        update_enc_def update_wait_def split: prod.split)
  have f: "(chainId p \<noteq> c \<or> stableMonitor_address st \<noteq> Some a \<longrightarrow>
        refreshBalance_then p c a (Inr handles) st =
          (st\<lparr>isRefreshingRef := False, isRefreshing := False\<rparr>, [], Fulfilled)) \<and>
     (chainId p = c \<and> stableMonitor_address st = Some a \<longrightarrow>
        balanceHandle (fst (refreshBalance_then p c a (Inr handles) st)) = Some (fst handles))"
    by (auto simp: refreshBalance_then_def sameChain_def split: prod.split)
  have c: "resume p k v st = Some done \<and> clearBalance (fst done) \<noteq> clearBalance st \<longrightarrow>
        (\<exists>cl' h'. k = DecryptBalance_res cl' h' \<and> chainId p = thisChainId cl' \<and>
           ethersSigner p = Some (thisEthersSigner cl') \<and>
           stableMonitor_address st = Some (thisContractAddress cl'))"
    using resume_clearBalance [of p k v st "done"] by (auto simp: isStale_iff)
  from d m f c show ?thesis by simp
qed


theorem stale_results_are_discarded_witness:
  "decryptBalance_res bob_props alice_closure handle1 (Inr [(handle1, CBig 100)]) decrypting =
     (ready\<lparr>message := ''Ignore FHEVM decryption''\<rparr>, [], Fulfilled) \<and>
   issue_wait bob_props alice_closure (Inr (Some plain_receipt)) issuing =
     (ready\<lparr>message := ''Ignore issue''\<rparr>, [], Fulfilled) \<and>
   refreshBalance_then alice_elsewhere (Some 11155111) contract
       (Inr (handle1, handle2, handle3)) elsewhere =
     (elsewhere\<lparr>isRefreshingRef := False, isRefreshing := False\<rparr>, [], Fulfilled) \<and>
   balanceHandle (fst (refreshBalance_then bob_props (Some 11155111) contract
       (Inr (handle1, handle2, handle3)) refreshing)) = Some handle1"
  using stale_results_are_discarded [of bob_props alice_closure decrypting handle1 signature1
      "[(handle1, CBig 100)]" "Inr [(handle1, CBig 100)]" "signer_address bob"
      "(handle4, ''0x00'')" "Some plain_receipt" "Some 11155111" contract
      "(handle1, handle2, handle3)" "Issue_tx alice_closure" "Sent (Inr tx1)"
      "(issuing, [], Running)"]
    stale_results_are_discarded [of bob_props alice_closure issuing handle1 signature1
      "[(handle1, CBig 100)]" "Inr [(handle1, CBig 100)]" "signer_address bob"
      "(handle4, ''0x00'')" "Some plain_receipt" "Some 11155111" contract
      "(handle1, handle2, handle3)" "Issue_tx alice_closure" "Sent (Inr tx1)"
      "(issuing, [], Running)"]
    stale_results_are_discarded [of alice_elsewhere alice_closure elsewhere handle1 signature1
      "[(handle1, CBig 100)]" "Inr [(handle1, CBig 100)]" "signer_address bob"
      "(handle4, ''0x00'')" "Some plain_receipt" "Some 11155111" contract
      "(handle1, handle2, handle3)" "Issue_tx alice_closure" "Sent (Inr tx1)"
      "(issuing, [], Running)"]
    stale_results_are_discarded [of bob_props alice_closure refreshing handle1 signature1
      "[(handle1, CBig 100)]" "Inr [(handle1, CBig 100)]" "signer_address bob"
      "(handle4, ''0x00'')" "Some plain_receipt" "Some 11155111" contract
      "(handle1, handle2, handle3)" "Issue_tx alice_closure" "Sent (Inr tx1)"
      "(issuing, [], Running)"]
  by (simp add: session_defs stableMonitor_address_def decrypting_def issuing_def refreshing_def
      elsewhere_def alice_elsewhere_def plain_receipt_def)

text \<open>The runs of \<open>decryptRiskThreshold\<close> and \<open>checkRisk\<close> check for staleness before the
  decryption round trip only: a threshold decrypted for Alice is stored after the switch
  to Bob.\<close>

lemma threshold_is_committed_after_switch:
  "exec table (mount table alice_props) switch_during_threshold_decrypt \<noteq> None \<and>
   ethersSigner (props (the (exec table (mount table alice_props)
       switch_during_threshold_decrypt))) = Some bob \<and>
   clearRiskThreshold (hook_state (the (exec table (mount table alice_props)
       switch_during_threshold_decrypt))) =
     Some \<lparr>handle = handle3, clear = Some (CBig 1000)\<rparr>"
  by (simp add: switch_during_threshold_decrypt_def signature1_def plain_receipt_def tx1_def
      run_defs sys_defs session_defs)

end
